theory Spec2Isabelle
  imports Main
begin

section \<open>The retirejs grep plugin of w3af: data model\<close>

text \<open>
  The plugin (\<^verbatim>\<open>w3af/plugins/grep/retirejs.py\<close>) hands HTTP response bodies to the
  external \<^verbatim>\<open>retire\<close> command, parses its JSON report and stores findings in the
  knowledge base. The model is a shallow embedding: the plugin object, the file system,
  the log and the knowledge base are fields of one explicit state, every Python
  exception is a value, and the libraries the plugin calls (hashlib, json, tempfile,
  subprocess) are parameters collected in an environment record.
\<close>

subsection \<open>JSON documents as Python sees them\<close>

text \<open>
  What \<^verbatim>\<open>json.loads\<close> returns: \<^verbatim>\<open>None\<close>, booleans, numbers, strings, lists and
  dictionaries (a dictionary is the list of its items, looked up with \<open>map_of\<close>).
  Numbers are integers; a float behaves like an integer in every operation below.
\<close>

datatype json =
    JNull
  | JBool bool
  | JNum int
  | JStr string
  | JArr "json list"
  | JObj "(string \<times> json) list"

text \<open>The exceptions that the plugin's code can meet.\<close>

datatype exc =
    AttributeError
  | TypeError
  | IOError string
  | ValueError string
  | OSError
  | CalledProcessError int

text \<open>\<^verbatim>\<open>d.get(key, default)\<close>: only a dictionary has the method \<^verbatim>\<open>get\<close>.\<close>

fun py_get :: "json \<Rightarrow> string \<Rightarrow> json \<Rightarrow> exc + json" where
  "py_get (JObj kvs) k d = Inr (case map_of kvs k of None \<Rightarrow> d | Some v \<Rightarrow> v)"
| "py_get _ k d = Inl AttributeError"

text \<open>
  \<^verbatim>\<open>for x in v\<close>: a list yields its elements, a dictionary its keys, a string its
  characters; nothing else is iterable.
\<close>

fun py_iter :: "json \<Rightarrow> exc + json list" where
  "py_iter (JArr xs) = Inr xs"
| "py_iter (JObj kvs) = Inr (map (\<lambda>kv. JStr (fst kv)) kvs)"
| "py_iter (JStr s) = Inr (map (\<lambda>c. JStr [c]) s)"
| "py_iter _ = Inl TypeError"

text \<open>Truth value of a Python object, as \<^verbatim>\<open>not v\<close> tests it.\<close>

fun py_truthy :: "json \<Rightarrow> bool" where
  "py_truthy JNull = False"
| "py_truthy (JBool b) = b"
| "py_truthy (JNum n) = (n \<noteq> 0)"
| "py_truthy (JStr s) = (s \<noteq> [])"
| "py_truthy (JArr xs) = (xs \<noteq> [])"
| "py_truthy (JObj kvs) = (kvs \<noteq> [])"

text \<open>\<^verbatim>\<open>s.lower()\<close> on ASCII: the letters A to Z move to a to z, all else stays.\<close>

definition lower_char :: "char \<Rightarrow> char" where
  "lower_char c =
     (case map_of (zip ''ABCDEFGHIJKLMNOPQRSTUVWXYZ'' ''abcdefghijklmnopqrstuvwxyz'') c of
        None \<Rightarrow> c
      | Some l \<Rightarrow> l)"

definition str_lower :: "string \<Rightarrow> string" where
  "str_lower s = map lower_char s"

text \<open>Only strings have the method \<^verbatim>\<open>lower\<close>.\<close>

fun py_lower :: "json \<Rightarrow> exc + string" where
  "py_lower (JStr s) = Inr (str_lower s)"
| "py_lower _ = Inl AttributeError"

subsection \<open>Requests, responses, findings\<close>

text \<open>
  Modelled from the spec: the request and response classes are not part of the source.
  The spec has the response source provide the method, the status code, a predicate for
  text or HTML content, the URL and the raw body bytes; a record holds what these
  accessors return, with the identifier and the URI that \<^verbatim>\<open>_handle_result\<close> reads.
\<close>

record request =
  get_method :: string

record response =
  get_code :: int
  is_text_or_html :: bool
  get_url :: string
  get_uri :: string
  get_body :: string
  get_id :: int

text \<open>
  Modelled from the spec: the module of severity constants and the class \<^verbatim>\<open>Vuln\<close> are
  not part of the source. The constants are the levels of the scanner's own taxonomy; a
  \<^verbatim>\<open>Vuln\<close> is the record of the arguments the plugin constructs it from and of the
  URI it sets.
\<close>

datatype severity_level = INFORMATION | LOW | MEDIUM | HIGH

record RetireJSVulnerability =
  severity :: json
  summary :: json
  info_urls :: json

record VulnerabilityMessage =
  response :: response
  component :: json
  version :: json
  vulnerabilities :: "RetireJSVulnerability list"

record Vuln =
  kb_name :: string
  kb_desc :: string
  kb_severity :: severity_level
  kb_response_id :: int
  kb_plugin_name :: string
  kb_uri :: "string option"

subsection \<open>State and environment\<close>

text \<open>
  Modelled from the spec: the class \<^verbatim>\<open>DiskSet\<close> is not part of the source. The spec
  describes the cache as a persistent set of fingerprints with a membership test and an
  insertion, so \<open>analyzed_hashes\<close> is a set of strings.

  The state: the three attributes of the plugin object, and the parts of the world it
  acts on. \<open>cmds\<close> is the trace of shell commands started, \<open>reads\<close> the trace of files
  opened for reading, \<open>out_error\<close> and \<open>out_debug\<close> are the two channels of the output
  manager, \<open>kb\<close> is the knowledge base location the plugin writes to.
\<close>

record state =
  analyzed_hashes :: "string set"
  retirejs_exit_code_result :: "bool option"
  retirejs_exit_code_was_run :: bool
  files :: "string \<rightharpoonup> string"
  cmds :: "string list"
  reads :: "string list"
  out_error :: "string list"
  out_debug :: "string list"
  kb :: "Vuln list"

text \<open>
  The environment: library functions and the external program.
  \<^item> \<open>md5_hexdigest x\<close> is \<^verbatim>\<open>hashlib.md5(x).hexdigest()\<close>;
  \<^item> \<open>json_loads\<close> is \<^verbatim>\<open>json.loads\<close>, \<open>Inl\<close> carrying the message of its \<^verbatim>\<open>ValueError\<close>;
  \<^item> \<open>tmp_name fs prefix suffix\<close> is the name \<^verbatim>\<open>tempfile.NamedTemporaryFile\<close> picks;
  \<^item> \<open>run_shell cmd fs\<close> is what running \<open>cmd\<close> to its end does: the return code
    that \<^verbatim>\<open>wait\<close> reports (negative when the process was terminated by a signal, as by
    the watchdog timer) and the file system it leaves;
  \<^item> \<open>py_repr\<close> is how \<^verbatim>\<open>%s\<close> prints a value that is not a string.
\<close>

record env =
  md5_hexdigest :: "string \<Rightarrow> string"
  json_loads :: "string \<Rightarrow> string + json"
  tmp_name :: "(string \<rightharpoonup> string) \<Rightarrow> string \<Rightarrow> string \<Rightarrow> string"
  run_shell :: "string \<Rightarrow> (string \<rightharpoonup> string) \<Rightarrow> int \<times> (string \<rightharpoonup> string)"
  py_repr :: "json \<Rightarrow> string"

text \<open>
  A call that returns nothing ends in \<open>Inr s\<close>, or in \<open>Inl (e, s)\<close> when the exception
  \<open>e\<close> leaves it; \<open>s\<close> is the state at that moment, since what was written stays written.
\<close>

type_synonym outcome = "(exc \<times> state) + state"

definition final :: "outcome \<Rightarrow> state" where
  "final r = (case r of Inl (e, s) \<Rightarrow> s | Inr s \<Rightarrow> s)"

section \<open>The plugin\<close>

subsection \<open>Deduplication\<close>

text \<open>\<^verbatim>\<open>retirejs._should_analyze\<close>. The cache is one set for both kinds of hash.\<close>

definition should_analyze :: "env \<Rightarrow> state \<Rightarrow> response \<Rightarrow> bool \<times> state" where
  "should_analyze E s resp =
     (let url_hash = md5_hexdigest E (get_url resp) in
      if url_hash \<in> analyzed_hashes s then (False, s)
      else
        let s1 = s\<lparr>analyzed_hashes := insert url_hash (analyzed_hashes s)\<rparr>;
            response_hash = md5_hexdigest E (get_body resp) in
        if response_hash \<in> analyzed_hashes s1 then (False, s1)
        else (True, s1\<lparr>analyzed_hashes := insert response_hash (analyzed_hashes s1)\<rparr>))"

subsection \<open>Files, processes, log\<close>

definition om_error :: "string \<Rightarrow> state \<Rightarrow> state" where
  "om_error msg s = s\<lparr>out_error := out_error s @ [msg]\<rparr>"

definition om_debug :: "string \<Rightarrow> state \<Rightarrow> state" where
  "om_debug msg s = s\<lparr>out_debug := out_debug s @ [msg]\<rparr>"

text \<open>
  \<^verbatim>\<open>tempfile.NamedTemporaryFile(prefix=..., suffix=..., delete=False)\<close> followed by
  \<^verbatim>\<open>close()\<close>: an empty file under the name picked.
\<close>

definition NamedTemporaryFile :: "env \<Rightarrow> string \<Rightarrow> string \<Rightarrow> state \<Rightarrow> string \<times> state" where
  "NamedTemporaryFile E prefix suffix s =
     (let name = tmp_name E (files s) prefix suffix
      in (name, s\<lparr>files := (files s)(name \<mapsto> [])\<rparr>))"

definition file_write :: "string \<Rightarrow> string \<Rightarrow> state \<Rightarrow> state" where
  "file_write name data s =
     s\<lparr>files := (files s)(name \<mapsto> (case files s name of None \<Rightarrow> data | Some old \<Rightarrow> old @ data))\<rparr>"

text \<open>\<^verbatim>\<open>file(name).read()\<close>; opening a file that does not exist raises.\<close>

definition file_read :: "string \<Rightarrow> state \<Rightarrow> (exc + string) \<times> state" where
  "file_read name s =
     (case files s name of
        None \<Rightarrow>
          Inl (IOError (''[Errno 2] No such file or directory: '' @ [CHR 0x27] @ name @ [CHR 0x27]))
      | Some data \<Rightarrow> Inr data,
      s\<lparr>reads := reads s @ [name]\<rparr>)"

definition os_remove :: "string \<Rightarrow> state \<Rightarrow> exc + state" where
  "os_remove name s =
     (if files s name = None then Inl OSError
      else Inr (s\<lparr>files := (files s)(name := None)\<rparr>))"

text \<open>\<^verbatim>\<open>retirejs._remove_file\<close>: whatever \<^verbatim>\<open>os.remove\<close> raises is swallowed.\<close>

definition remove_file :: "string \<Rightarrow> state \<Rightarrow> state" where
  "remove_file response_file s =
     (case os_remove response_file s of Inl e \<Rightarrow> s | Inr s' \<Rightarrow> s')"

definition RETIRE_CMD :: "string \<Rightarrow> string \<Rightarrow> string" where
  "RETIRE_CMD outputpath jspath =
     ''retire -j --outputformat json --outputpath '' @ outputpath @ '' --jspath '' @ jspath"

definition RETIRE_TIMEOUT :: nat where
  "RETIRE_TIMEOUT = 5"

text \<open>
  \<^verbatim>\<open>subprocess.Popen(cmd, shell=True)\<close> followed by \<^verbatim>\<open>wait()\<close>: the command is
  started, and the caller goes on with the return code once the process is gone.
\<close>

definition popen_wait :: "env \<Rightarrow> string \<Rightarrow> state \<Rightarrow> int \<times> state" where
  "popen_wait E cmd s =
     (let (returncode, fs) = run_shell E cmd (files s)
      in (returncode, s\<lparr>files := fs, cmds := cmds s @ [cmd]\<rparr>))"

text \<open>
  \<^verbatim>\<open>subprocess.check_output(cmd, shell=True)\<close>, whose output the plugin drops: it
  raises \<^verbatim>\<open>CalledProcessError\<close> exactly when the return code is not zero.
\<close>

definition check_output :: "env \<Rightarrow> string \<Rightarrow> state \<Rightarrow> (exc + unit) \<times> state" where
  "check_output E cmd s =
     (let (returncode, s') = popen_wait E cmd s
      in (if returncode \<noteq> 0 then Inl (CalledProcessError returncode) else Inr (), s'))"

subsection \<open>The health check\<close>

text \<open>
  \<^verbatim>\<open>retirejs._retirejs_exit_code\<close>. What it returns is the stored attribute, which is
  \<^verbatim>\<open>None\<close> until the check has run.
\<close>

definition retirejs_exit_code :: "env \<Rightarrow> state \<Rightarrow> bool option \<times> state" where
  "retirejs_exit_code E s =
     (if retirejs_exit_code_was_run s then (retirejs_exit_code_result s, s)
      else
        let (check_file, s1) = NamedTemporaryFile E ''retirejs-check-'' ''.w3af'' s;
            s2 = file_write check_file [] s1;
            (output_file, s3) = NamedTemporaryFile E ''retirejs-output-'' ''.w3af'' s2;
            cmd = RETIRE_CMD output_file check_file;
            (r, s4) = check_output E cmd s3;
            s5 = (case r of
                    Inl e \<Rightarrow>
                      (om_error ''Unexpected retire.js exit code. Disabling grep.retirejs plugin.'' s4)
                        \<lparr>retirejs_exit_code_was_run := True, retirejs_exit_code_result := Some False\<rparr>
                  | Inr u \<Rightarrow>
                      (om_debug ''retire.js returned the expected exit code.'' s4)
                        \<lparr>retirejs_exit_code_was_run := True, retirejs_exit_code_result := Some True\<rparr>);
            s6 = remove_file output_file s5;
            s7 = remove_file check_file s6
        in (retirejs_exit_code_result s7, s7))"

subsection \<open>Running the analyzer on one response\<close>

text \<open>\<^verbatim>\<open>retirejs._save_response_to_file\<close>.\<close>

definition save_response_to_file :: "env \<Rightarrow> state \<Rightarrow> response \<Rightarrow> string \<times> state" where
  "save_response_to_file E s resp =
     (let (response_file, s1) = NamedTemporaryFile E ''retirejs-response-'' ''.w3af.js'' s
      in (response_file, file_write response_file (get_body resp) s1))"

fun exc_str :: "exc \<Rightarrow> string" where
  "exc_str (IOError m) = m"
| "exc_str (ValueError m) = m"
| "exc_str (CalledProcessError n) = ''Command returned non-zero exit status''"
| "exc_str _ = []"

text \<open>\<^verbatim>\<open>json.loads(file(json_file.name).read())\<close>.\<close>

definition read_json :: "env \<Rightarrow> string \<Rightarrow> state \<Rightarrow> (exc + json) \<times> state" where
  "read_json E name s =
     (case file_read name s of
        (Inl e, s') \<Rightarrow> (Inl e, s')
      | (Inr data, s') \<Rightarrow>
          (case json_loads E data of Inl m \<Rightarrow> Inl (ValueError m) | Inr doc \<Rightarrow> Inr doc, s'))"

text \<open>
  \<^verbatim>\<open>retirejs._analyze_file\<close>. The timer started before \<^verbatim>\<open>wait\<close> and cancelled after
  it terminates a process that hangs; here that is one of the ways in which
  \<open>run_shell\<close> ends with a return code other than zero.
\<close>

definition analyze_file :: "env \<Rightarrow> state \<Rightarrow> string \<Rightarrow> json \<times> state" where
  "analyze_file E s response_file =
     (let (json_file, s1) = NamedTemporaryFile E ''retirejs-output-'' ''.w3af'' s;
          cmd = RETIRE_CMD json_file response_file;
          (returncode, s2) = popen_wait E cmd s1;
          (json_doc, s3) =
            (if returncode \<noteq> 0 then
               (case read_json E json_file s2 of
                  (Inr doc, s') \<Rightarrow> (doc, s')
                | (Inl e, s') \<Rightarrow>
                    (JArr [],
                     om_debug (''Failed to parse retirejs output. Exception: '' @
                               [CHR 0x22] @ exc_str e @ [CHR 0x22]) s'))
             else (JArr [], s2))
      in (json_doc, remove_file json_file s3))"

subsection \<open>The report of one library\<close>

text \<open>\<^verbatim>\<open>VulnerabilityMessage.add_vulnerability\<close>.\<close>

definition add_vulnerability :: "VulnerabilityMessage \<Rightarrow> RetireJSVulnerability \<Rightarrow> VulnerabilityMessage" where
  "add_vulnerability m vulnerability = m\<lparr>vulnerabilities := vulnerabilities m @ [vulnerability]\<rparr>"

text \<open>
  \<^verbatim>\<open>VulnerabilityMessage.get_severity\<close>: the loop leaves at the first vulnerability
  whose lowered severity is \<^verbatim>\<open>'high'\<close>; a severity that is not a string has no
  \<^verbatim>\<open>lower\<close>.
\<close>

fun get_severity_loop :: "RetireJSVulnerability list \<Rightarrow> exc + severity_level" where
  "get_severity_loop [] = Inr LOW"
| "get_severity_loop (vulnerability # rest) =
     (case py_lower (severity vulnerability) of
        Inl e \<Rightarrow> Inl e
      | Inr l \<Rightarrow> if l = ''high'' then Inr MEDIUM else get_severity_loop rest)"

definition get_severity :: "VulnerabilityMessage \<Rightarrow> exc + severity_level" where
  "get_severity m = get_severity_loop (vulnerabilities m)"

text \<open>The conversion \<^verbatim>\<open>%s\<close>: a string is printed as it is.\<close>

definition fmt_s :: "env \<Rightarrow> json \<Rightarrow> string" where
  "fmt_s E v = (case v of JStr s \<Rightarrow> s | _ \<Rightarrow> py_repr E v)"

fun str_join :: "string \<Rightarrow> string list \<Rightarrow> string" where
  "str_join sep [] = []"
| "str_join sep [x] = x"
| "str_join sep (x # y # ys) = x @ sep @ str_join sep (y # ys)"

definition summary_line :: "env \<Rightarrow> RetireJSVulnerability \<Rightarrow> string" where
  "summary_line E vuln = '' - '' @ fmt_s E (summary vuln)"

text \<open>\<^verbatim>\<open>VulnerabilityMessage.to_string\<close>.\<close>

definition to_string :: "env \<Rightarrow> VulnerabilityMessage \<Rightarrow> string" where
  "to_string E m =
     (let summaries = str_join [CHR 0x0A] (map (summary_line E) (vulnerabilities m))
      in ''A JavaScript library with known vulnerabilities was identified at ''
         @ get_url (response m)
         @ ''. The library was identified as '' @ [CHR 0x22] @ fmt_s E (component m) @ [CHR 0x22]
         @ '' version '' @ fmt_s E (version m)
         @ '' and has these known vulnerabilities:'' @ [CHR 0x0A, CHR 0x0A]
         @ summaries @ [CHR 0x0A, CHR 0x0A]
         @ ''Consider updating to the latest stable release of the affected library.'')"

subsection \<open>From the JSON document to the knowledge base\<close>

text \<open>
  Modelled from the spec: \<^verbatim>\<open>kb_append_uniq(self, 'js', v, filter_by='URL')\<close> is inherited
  from the plugin base class, which is not part of the source. The spec asks of the
  result store at most one record per URL, reports for a URL that has a record being
  collapsed: the record is appended unless the location holds one with the same URL,
  which is the one the plugin sets with \<^verbatim>\<open>set_uri\<close>.
\<close>

definition kb_append_uniq :: "Vuln \<Rightarrow> state \<Rightarrow> state" where
  "kb_append_uniq v s =
     (if kb_uri v \<in> set (map kb_uri (kb s)) then s else s\<lparr>kb := kb s @ [v]\<rparr>)"

text \<open>The body of the loop over the vulnerabilities of a result, with its defaults.\<close>

definition retire_vuln :: "json \<Rightarrow> exc + RetireJSVulnerability" where
  "retire_vuln vulnerability =
     (case py_get vulnerability ''severity'' (JStr ''unknown'') of
        Inl e \<Rightarrow> Inl e
      | Inr vuln_severity \<Rightarrow>
     (case py_get vulnerability ''identifiers'' (JObj []) of
        Inl e \<Rightarrow> Inl e
      | Inr identifiers \<Rightarrow>
     (case py_get identifiers ''summary'' (JStr ''unknown'') of
        Inl e \<Rightarrow> Inl e
      | Inr summary' \<Rightarrow>
     (case py_get vulnerability ''info'' (JArr []) of
        Inl e \<Rightarrow> Inl e
      | Inr info_urls' \<Rightarrow>
          Inr \<lparr>severity = vuln_severity, summary = summary', info_urls = info_urls'\<rparr>))))"

fun add_vulnerabilities :: "VulnerabilityMessage \<Rightarrow> json list \<Rightarrow> exc + VulnerabilityMessage" where
  "add_vulnerabilities message [] = Inr message"
| "add_vulnerabilities message (vulnerability # rest) =
     (case retire_vuln vulnerability of
        Inl e \<Rightarrow> Inl e
      | Inr v \<Rightarrow> add_vulnerabilities (add_vulnerability message v) rest)"

text \<open>\<^verbatim>\<open>self.get_name()\<close>: the name of the plugin class.\<close>

definition get_name :: string where
  "get_name = ''retirejs''"

text \<open>\<^verbatim>\<open>retirejs._handle_result\<close>.\<close>

definition handle_result :: "env \<Rightarrow> state \<Rightarrow> response \<Rightarrow> json \<Rightarrow> outcome" where
  "handle_result E s resp json_result =
     (case py_get json_result ''version'' JNull of
        Inl e \<Rightarrow> Inl (e, s)
      | Inr version' \<Rightarrow>
     (case py_get json_result ''component'' JNull of
        Inl e \<Rightarrow> Inl (e, s)
      | Inr component' \<Rightarrow>
     (case py_get json_result ''vulnerabilities'' (JArr []) of
        Inl e \<Rightarrow> Inl (e, s)
      | Inr vulnerabilities' \<Rightarrow>
          if version' = JNull \<or> component' = JNull then
            Inr (om_debug (''The retirejs generated JSON document is invalid.''
                   @ '' Either the version or the component attribute is''
                   @ '' missing. Will ignore this result and continue with''
                   @ '' the next.'') s)
          else if \<not> py_truthy vulnerabilities' then
            Inr (om_debug (''The retirejs generated JSON document is invalid. No''
                   @ '' vulnerabilities were found. Will ignore this result''
                   @ '' and continue with the next.'') s)
          else
            (case py_iter vulnerabilities' of
               Inl e \<Rightarrow> Inl (e, s)
             | Inr vs \<Rightarrow>
            (case add_vulnerabilities
                    \<lparr>response = resp, component = component', version = version',
                     vulnerabilities = []\<rparr> vs of
               Inl e \<Rightarrow> Inl (e, s)
             | Inr message \<Rightarrow>
                 let desc = to_string E message in
                 (case get_severity message of
                    Inl e \<Rightarrow> Inl (e, s)
                  | Inr real_severity \<Rightarrow>
                      Inr (kb_append_uniq
                             \<lparr>kb_name = ''Vulnerable JavaScript library in use'',
                              kb_desc = desc,
                              kb_severity = real_severity,
                              kb_response_id = get_id resp,
                              kb_plugin_name = get_name,
                              kb_uri = Some (get_uri resp)\<rparr> s)))))))"

text \<open>The loop of \<^verbatim>\<open>retirejs._handle_finding\<close> and the method itself.\<close>

fun handle_results :: "env \<Rightarrow> state \<Rightarrow> response \<Rightarrow> json list \<Rightarrow> outcome" where
  "handle_results E s resp [] = Inr s"
| "handle_results E s resp (json_result # rest) =
     (case handle_result E s resp json_result of
        Inl x \<Rightarrow> Inl x
      | Inr s' \<Rightarrow> handle_results E s' resp rest)"

definition handle_finding :: "env \<Rightarrow> state \<Rightarrow> response \<Rightarrow> json \<Rightarrow> outcome" where
  "handle_finding E s resp json_finding =
     (case py_get json_finding ''results'' (JArr []) of
        Inl e \<Rightarrow> Inl (e, s)
      | Inr results \<Rightarrow>
          (case py_iter results of
             Inl e \<Rightarrow> Inl (e, s)
           | Inr rs \<Rightarrow> handle_results E s resp rs))"

text \<open>The loop of \<^verbatim>\<open>retirejs._json_to_kb\<close> and the method itself.\<close>

fun handle_findings :: "env \<Rightarrow> state \<Rightarrow> response \<Rightarrow> json list \<Rightarrow> outcome" where
  "handle_findings E s resp [] = Inr s"
| "handle_findings E s resp (json_finding # rest) =
     (case handle_finding E s resp json_finding of
        Inl x \<Rightarrow> Inl x
      | Inr s' \<Rightarrow> handle_findings E s' resp rest)"

definition json_to_kb :: "env \<Rightarrow> state \<Rightarrow> response \<Rightarrow> json \<Rightarrow> outcome" where
  "json_to_kb E s resp json_doc =
     (case py_iter json_doc of
        Inl e \<Rightarrow> Inl (e, s)
      | Inr fs \<Rightarrow> handle_findings E s resp fs)"

text \<open>\<^verbatim>\<open>retirejs._analyze_response\<close>.\<close>

definition analyze_response :: "env \<Rightarrow> state \<Rightarrow> response \<Rightarrow> outcome" where
  "analyze_response E s resp =
     (let (response_file, s1) = save_response_to_file E s resp;
          (json_doc, s2) = analyze_file E s1 response_file;
          s3 = remove_file response_file s2
      in json_to_kb E s3 resp json_doc)"

subsection \<open>The entry point\<close>

definition METHODS :: "string list" where
  "METHODS = [''GET'']"

definition HTTP_CODES :: "int list" where
  "HTTP_CODES = [200]"

text \<open>\<^verbatim>\<open>retirejs.grep\<close>. \<^verbatim>\<open>not x\<close> holds of \<^verbatim>\<open>None\<close> and of \<^verbatim>\<open>False\<close>.\<close>

definition grep :: "env \<Rightarrow> state \<Rightarrow> request \<Rightarrow> response \<Rightarrow> outcome" where
  "grep E s req resp =
     (let (ok, s1) = retirejs_exit_code E s in
      if ok \<noteq> Some True then Inr s1
      else if get_method req \<notin> set METHODS then Inr s1
      else if get_code resp \<notin> set HTTP_CODES then Inr s1
      else if \<not> is_text_or_html resp then Inr s1
      else
        let (go, s2) = should_analyze E s1 resp in
        if \<not> go then Inr s2
        else analyze_response E s2 resp)"

text \<open>
  Modelled from the spec: the scanner that calls \<^verbatim>\<open>grep\<close> is not part of the source.
  The spec has every response processed on its own, a failure in one of them never
  stopping the scan: a session hands the plugin one request and response after the
  other, and goes on with the next pair also when a call ended in an exception.
\<close>

fun session :: "env \<Rightarrow> state \<Rightarrow> (request \<times> response) list \<Rightarrow> state" where
  "session E s [] = s"
| "session E s (rr # rest) = session E (final (grep E s (fst rr) (snd rr))) rest"

text \<open>\<^verbatim>\<open>retirejs.__init__\<close>, in a world with no files, no log and an empty knowledge base.\<close>

definition init_state :: state where
  "init_state =
     \<lparr>analyzed_hashes = {},
      retirejs_exit_code_result = None,
      retirejs_exit_code_was_run = False,
      files = Map.empty, cmds = [], reads = [], out_error = [], out_debug = [], kb = []\<rparr>"

section \<open>Concrete instances\<close>

text \<open>
  A result as \<^verbatim>\<open>retire\<close> writes it: one library with two vulnerabilities, the
  second with no severity, no summary and no references; and a report holding it.
\<close>

definition demo_result :: json where
  "demo_result =
     JObj [(''component'', JStr ''jquery''),
           (''version'', JStr ''1.8.1''),
           (''vulnerabilities'',
            JArr [JObj [(''severity'', JStr ''High''),
                        (''identifiers'', JObj [(''summary'', JStr ''XSS in load()'')]),
                        (''info'', JArr [JStr ''https://example.org/advisory''])],
                  JObj [(''identifiers'', JObj [(''CVE'', JArr [JStr ''CVE-2015-9251''])])]])]"

definition demo_report :: json where
  "demo_report =
     JArr [JObj [(''file'', JStr ''/tmp/retirejs-response-x.w3af.js''),
                 (''results'', JArr [demo_result])]]"

text \<open>A report of one library whose vulnerabilities have the given severities.\<close>

definition demo_message :: "string list \<Rightarrow> VulnerabilityMessage" where
  "demo_message sevs =
     \<lparr>response = \<lparr>get_code = 200, is_text_or_html = True, get_url = ''http://h/a.js'',
                   get_uri = ''http://h/a.js'', get_body = ''B'', get_id = 1\<rparr>,
      component = JStr ''jquery'', version = JStr ''1.8.1'',
      vulnerabilities =
        map (\<lambda>x. \<lparr>severity = JStr x, summary = JStr ''XSS'', info_urls = JArr []\<rparr>) sevs\<rparr>"

text \<open>
  An environment to run the model in: hashing that tags its input, a decoder that knows
  the empty report and the text standing for \<open>demo_report\<close>, temporary names that
  depend on prefix and suffix only, and an analyzer that ends with return code \<open>rc\<close>
  after writing \<open>out\<close>, if any, to its output path.
\<close>

definition demo_env :: "int \<Rightarrow> string option \<Rightarrow> env" where
  "demo_env rc out =
     \<lparr>md5_hexdigest = (\<lambda>x. ''md5:'' @ x),
      json_loads = (\<lambda>d. if d = ''[]'' then Inr (JArr [])
                         else if d = ''REPORT'' then Inr demo_report
                         else Inl ''No JSON object could be decoded''),
      tmp_name = (\<lambda>fs prefix suffix. ''/tmp/'' @ prefix @ ''x'' @ suffix),
      run_shell = (\<lambda>cmd fs. (rc, case out of None \<Rightarrow> fs
                                     | Some d \<Rightarrow> fs(''/tmp/retirejs-output-x.w3af'' \<mapsto> d))),
      py_repr = (\<lambda>v. ''?'')\<rparr>"

definition demo_request :: request where
  "demo_request = \<lparr>get_method = ''GET''\<rparr>"

definition demo_response :: "string \<Rightarrow> string \<Rightarrow> response" where
  "demo_response u b =
     \<lparr>get_code = 200, is_text_or_html = True, get_url = u, get_uri = u, get_body = b, get_id = 1\<rparr>"

text \<open>The state of a plugin whose health check has passed.\<close>

definition checked_state :: state where
  "checked_state =
     init_state\<lparr>retirejs_exit_code_was_run := True, retirejs_exit_code_result := Some True\<rparr>"

section \<open>Auxiliary notions\<close>

text \<open>
  \<open>frame s s'\<close>: going from \<open>s\<close> to \<open>s'\<close> touched neither the plugin object nor files and
  processes; the log and the knowledge base may differ.
\<close>

definition frame :: "state \<Rightarrow> state \<Rightarrow> bool" where
  "frame s s' \<longleftrightarrow> analyzed_hashes s' = analyzed_hashes s \<and> cmds s' = cmds s \<and> files s' = files s
     \<and> reads s' = reads s \<and> retirejs_exit_code_was_run s' = retirejs_exit_code_was_run s
     \<and> retirejs_exit_code_result s' = retirejs_exit_code_result s"

text \<open>The number of commands that the health check still has to run.\<close>

definition hc :: "state \<Rightarrow> nat" where
  "hc s = (if retirejs_exit_code_was_run s then 0 else 1)"

text \<open>
  Two outcomes that agree on how the call ended and on the knowledge base it left.
\<close>

definition same_kb :: "outcome \<Rightarrow> outcome \<Rightarrow> bool" where
  "same_kb a b \<longleftrightarrow>
     (case a of
        Inl (e, s) \<Rightarrow> (case b of Inl (e', t) \<Rightarrow> e' = e \<and> kb t = kb s | Inr t \<Rightarrow> False)
      | Inr s \<Rightarrow> (case b of Inl x \<Rightarrow> False | Inr t \<Rightarrow> kb t = kb s))"

section \<open>What each method leaves untouched\<close>

lemmas demo_defs = demo_env_def demo_request_def demo_response_def checked_state_def init_state_def
  demo_report_def demo_result_def demo_message_def
lemmas run_defs = grep_def retirejs_exit_code_def should_analyze_def analyze_response_def
  save_response_to_file_def analyze_file_def NamedTemporaryFile_def file_write_def file_read_def
  read_json_def popen_wait_def check_output_def remove_file_def os_remove_def om_debug_def
  om_error_def RETIRE_CMD_def METHODS_def HTTP_CODES_def json_to_kb_def handle_finding_def
  handle_result_def kb_append_uniq_def final_def Let_def

lemma remove_file_frame [simp]:
  "analyzed_hashes (remove_file p s) = analyzed_hashes s"
  "cmds (remove_file p s) = cmds s"
  "kb (remove_file p s) = kb s"
  "reads (remove_file p s) = reads s"
  "out_debug (remove_file p s) = out_debug s"
  "out_error (remove_file p s) = out_error s"
  "retirejs_exit_code_was_run (remove_file p s) = retirejs_exit_code_was_run s"
  "retirejs_exit_code_result (remove_file p s) = retirejs_exit_code_result s"
  "files (remove_file p s) = (files s)(p := None)"
  by (auto simp: remove_file_def os_remove_def)

lemma frame_refl [simp]: "frame s s"
  by (simp add: frame_def)

lemma frame_trans: "frame s s' \<Longrightarrow> frame s' s'' \<Longrightarrow> frame s s''"
  by (simp add: frame_def)

lemma handle_result_frame: "frame s (final (handle_result E s r j))"
  by (simp add: frame_def handle_result_def final_def om_debug_def kb_append_uniq_def Let_def
           split: sum.splits)

lemma handle_results_frame: "frame s (final (handle_results E s r js))"
proof (induction js arbitrary: s)
  case Nil show ?case by (simp add: final_def)
next
  case (Cons j js)
  show ?case
  proof (cases "handle_result E s r j")
    case (Inl x)
    with handle_result_frame[of s E r j] show ?thesis by simp
  next
    case (Inr s')
    with handle_result_frame[of s E r j] Cons.IH[of s'] show ?thesis
      by (auto simp: final_def intro: frame_trans)
  qed
qed

lemma handle_finding_frame: "frame s (final (handle_finding E s r j))"
proof (cases "py_get j ''results'' (JArr [])")
  case (Inl e) then show ?thesis by (simp add: handle_finding_def final_def)
next
  case a: (Inr results)
  show ?thesis
  proof (cases "py_iter results")
    case (Inl e) with a show ?thesis by (simp add: handle_finding_def final_def)
  next
    case (Inr rs)
    with a handle_results_frame[of s E r rs] show ?thesis by (simp add: handle_finding_def)
  qed
qed

lemma handle_findings_frame: "frame s (final (handle_findings E s r js))"
proof (induction js arbitrary: s)
  case Nil show ?case by (simp add: final_def)
next
  case (Cons j js)
  show ?case
  proof (cases "handle_finding E s r j")
    case (Inl x)
    with handle_finding_frame[of s E r j] show ?thesis by simp
  next
    case (Inr s')
    with handle_finding_frame[of s E r j] Cons.IH[of s'] show ?thesis
      by (auto simp: final_def intro: frame_trans)
  qed
qed

lemma json_to_kb_frame: "frame s (final (json_to_kb E s r j))"
proof (cases "py_iter j")
  case (Inl e) then show ?thesis by (simp add: json_to_kb_def final_def)
next
  case (Inr fs)
  with handle_findings_frame[of s E r fs] show ?thesis by (simp add: json_to_kb_def)
qed

lemma analyze_file_frame:
  "analyzed_hashes (snd (analyze_file E s rf)) = analyzed_hashes s"
  "retirejs_exit_code_was_run (snd (analyze_file E s rf)) = retirejs_exit_code_was_run s"
  "retirejs_exit_code_result (snd (analyze_file E s rf)) = retirejs_exit_code_result s"
  "kb (snd (analyze_file E s rf)) = kb s"
  "cmds (snd (analyze_file E s rf)) =
     cmds s @ [RETIRE_CMD (tmp_name E (files s) ''retirejs-output-'' ''.w3af'') rf]"
  by (auto simp: analyze_file_def NamedTemporaryFile_def popen_wait_def read_json_def
        file_read_def om_debug_def Let_def split: prod.splits sum.splits option.splits)

lemma save_response_to_file_frame:
  "analyzed_hashes (snd (save_response_to_file E s r)) = analyzed_hashes s"
  "retirejs_exit_code_was_run (snd (save_response_to_file E s r)) = retirejs_exit_code_was_run s"
  "retirejs_exit_code_result (snd (save_response_to_file E s r)) = retirejs_exit_code_result s"
  "kb (snd (save_response_to_file E s r)) = kb s"
  "cmds (snd (save_response_to_file E s r)) = cmds s"
  by (simp_all add: save_response_to_file_def NamedTemporaryFile_def file_write_def Let_def)

lemma analyze_response_frame:
  "analyzed_hashes (final (analyze_response E s r)) = analyzed_hashes s"
  "retirejs_exit_code_was_run (final (analyze_response E s r)) = retirejs_exit_code_was_run s"
  "retirejs_exit_code_result (final (analyze_response E s r)) = retirejs_exit_code_result s"
  "length (cmds (final (analyze_response E s r))) = Suc (length (cmds s))"
proof -
  obtain rf s1 where a: "save_response_to_file E s r = (rf, s1)" by (cases "save_response_to_file E s r")
  obtain d s2 where b: "analyze_file E s1 rf = (d, s2)" by (cases "analyze_file E s1 rf")
  have eq: "analyze_response E s r = json_to_kb E (remove_file rf s2) r d"
    by (simp add: analyze_response_def a b)
  from json_to_kb_frame[of "remove_file rf s2" E r d]
  have f: "frame (remove_file rf s2) (final (analyze_response E s r))" by (simp add: eq)
  from a have s1: "s1 = snd (save_response_to_file E s r)" by simp
  from b have s2: "s2 = snd (analyze_file E s1 rf)" by simp
  show "analyzed_hashes (final (analyze_response E s r)) = analyzed_hashes s"
    using f by (simp add: frame_def s2 analyze_file_frame s1 save_response_to_file_frame)
  show "retirejs_exit_code_was_run (final (analyze_response E s r)) = retirejs_exit_code_was_run s"
    using f by (simp add: frame_def s2 analyze_file_frame s1 save_response_to_file_frame)
  show "retirejs_exit_code_result (final (analyze_response E s r)) = retirejs_exit_code_result s"
    using f by (simp add: frame_def s2 analyze_file_frame s1 save_response_to_file_frame)
  show "length (cmds (final (analyze_response E s r))) = Suc (length (cmds s))"
    using f by (simp add: frame_def s2 analyze_file_frame s1 save_response_to_file_frame)
qed

lemma should_analyze_frame:
  "cmds (snd (should_analyze E s r)) = cmds s"
  "retirejs_exit_code_was_run (snd (should_analyze E s r)) = retirejs_exit_code_was_run s"
  "retirejs_exit_code_result (snd (should_analyze E s r)) = retirejs_exit_code_result s"
  "analyzed_hashes s \<subseteq> analyzed_hashes (snd (should_analyze E s r))"
  by (auto simp: should_analyze_def Let_def)

lemma should_analyze_True:
  "fst (should_analyze E s r) \<Longrightarrow>
     md5_hexdigest E (get_url r) \<notin> analyzed_hashes s \<and>
     md5_hexdigest E (get_body r) \<notin> analyzed_hashes s"
  by (auto simp: should_analyze_def Let_def split: if_splits)

lemma should_analyze_after:
  "md5_hexdigest E (get_url r) \<in> analyzed_hashes (snd (should_analyze E s r))"
  "fst (should_analyze E s r) \<Longrightarrow> md5_hexdigest E (get_body r) \<in> analyzed_hashes (snd (should_analyze E s r))"
  by (auto simp: should_analyze_def Let_def split: if_splits)

lemma retirejs_exit_code_run:
  "retirejs_exit_code_was_run s \<Longrightarrow> retirejs_exit_code E s = (retirejs_exit_code_result s, s)"
  by (simp add: retirejs_exit_code_def)

text \<open>grep with health check done\<close>
lemma grep_run_cases:
  assumes "retirejs_exit_code_was_run s"
  shows "grep E s rq r = Inr s \<or>
         (\<not> fst (should_analyze E s r) \<and> grep E s rq r = Inr (snd (should_analyze E s r))) \<or>
         (fst (should_analyze E s r) \<and> grep E s rq r = analyze_response E (snd (should_analyze E s r)) r)"
  using assms by (auto simp: grep_def retirejs_exit_code_run Let_def split: prod.splits)


lemma retirejs_exit_code_frame:
  "analyzed_hashes (snd (retirejs_exit_code E s)) = analyzed_hashes s"
  "retirejs_exit_code_was_run (snd (retirejs_exit_code E s))"
  "kb (snd (retirejs_exit_code E s)) = kb s"
  "length (cmds (snd (retirejs_exit_code E s))) =
     length (cmds s) + (if retirejs_exit_code_was_run s then 0 else 1)"
  by (auto simp: retirejs_exit_code_def NamedTemporaryFile_def file_write_def check_output_def
        popen_wait_def om_debug_def om_error_def Let_def split: prod.splits sum.splits)

lemma grep_cases:
  "grep E s rq r = Inr (snd (retirejs_exit_code E s)) \<or>
   (\<not> fst (should_analyze E (snd (retirejs_exit_code E s)) r) \<and>
      grep E s rq r = Inr (snd (should_analyze E (snd (retirejs_exit_code E s)) r))) \<or>
   (fst (should_analyze E (snd (retirejs_exit_code E s)) r) \<and>
      grep E s rq r =
        analyze_response E (snd (should_analyze E (snd (retirejs_exit_code E s)) r)) r)"
  by (auto simp: grep_def Let_def split: prod.splits)

lemma grep_step:
  "retirejs_exit_code_was_run (final (grep E s rq r)) \<and>
   analyzed_hashes s \<subseteq> analyzed_hashes (final (grep E s rq r)) \<and>
   (length (cmds (final (grep E s rq r))) = length (cmds s) + hc s \<or>
    length (cmds (final (grep E s rq r))) = Suc (length (cmds s) + hc s) \<and>
    md5_hexdigest E (get_url r) \<notin> analyzed_hashes s \<and>
    md5_hexdigest E (get_url r) \<in> analyzed_hashes (final (grep E s rq r)) \<and>
    md5_hexdigest E (get_body r) \<notin> analyzed_hashes s \<and>
    md5_hexdigest E (get_body r) \<in> analyzed_hashes (final (grep E s rq r)))"
proof -
  define s1 where "s1 = snd (retirejs_exit_code E s)"
  define s2 where "s2 = snd (should_analyze E s1 r)"
  have s1: "analyzed_hashes s1 = analyzed_hashes s" "retirejs_exit_code_was_run s1"
    "length (cmds s1) = length (cmds s) + hc s"
    by (simp_all add: s1_def retirejs_exit_code_frame hc_def)
  have s2: "cmds s2 = cmds s1" "retirejs_exit_code_was_run s2"
    using s1 by (simp_all add: s2_def should_analyze_frame)
  have s2m: "analyzed_hashes s \<subseteq> analyzed_hashes s2"
    using should_analyze_frame(4)[of s1 E r] by (simp add: s2_def s1(1))
  from grep_cases[of E s rq r]
  consider (a) "grep E s rq r = Inr s1"
    | (b) "grep E s rq r = Inr s2"
    | (c) "fst (should_analyze E s1 r)" "grep E s rq r = analyze_response E s2 r"
    unfolding s1_def s2_def by blast
  then show ?thesis
  proof cases
    case a
    then show ?thesis using s1 by (simp add: final_def)
  next
    case b
    then show ?thesis using s1 s2 s2m by (simp add: final_def)
  next
    case c
    from should_analyze_True[OF c(1)] should_analyze_after[where E=E and r=r and s=s1] c(1)
    have "md5_hexdigest E (get_url r) \<notin> analyzed_hashes s1"
       "md5_hexdigest E (get_body r) \<notin> analyzed_hashes s1"
       "md5_hexdigest E (get_url r) \<in> analyzed_hashes s2"
       "md5_hexdigest E (get_body r) \<in> analyzed_hashes s2"
      by (simp_all add: s2_def)
    then show ?thesis using s1 s2 s2m c(2) by (simp add: analyze_response_frame)
  qed
qed

lemma session_was_run:
  "retirejs_exit_code_was_run s \<Longrightarrow> retirejs_exit_code_was_run (session E s rrs)"
  by (induction rrs arbitrary: s) (simp_all add: grep_step)

lemma session_mono: "analyzed_hashes s \<subseteq> analyzed_hashes (session E s rrs)"
proof (induction rrs arbitrary: s)
  case Nil show ?case by simp
next
  case (Cons rr rrs)
  have "analyzed_hashes s \<subseteq> analyzed_hashes (final (grep E s (fst rr) (snd rr)))"
    using grep_step[of E s "fst rr" "snd rr"] by simp
  with Cons.IH[of "final (grep E s (fst rr) (snd rr))"] show ?case by auto
qed

lemma session_bound:
  assumes g: "g = get_url \<or> g = get_body"
  shows "length (cmds (session E s rrs)) \<le>
     length (cmds s) + hc s + card ((\<lambda>rr. md5_hexdigest E (g (snd rr))) ` set rrs - analyzed_hashes s)"
proof (induction rrs arbitrary: s)
  case Nil show ?case by simp
next
  case (Cons rr rrs)
  define s' where "s' = final (grep E s (fst rr) (snd rr))"
  define h :: "request \<times> response \<Rightarrow> string" where "h = (\<lambda>rr. md5_hexdigest E (g (snd rr)))"
  have run': "hc s' = 0" using grep_step[of E s "fst rr" "snd rr"] by (simp add: s'_def hc_def)
  have mono: "analyzed_hashes s \<subseteq> analyzed_hashes s'"
    using grep_step[of E s "fst rr" "snd rr"] by (simp add: s'_def)
  have IH: "length (cmds (session E s' rrs)) \<le> length (cmds s') + card (h ` set rrs - analyzed_hashes s')"
    using Cons.IH[of s'] run' by (simp add: h_def)
  have fin: "finite (h ` set (rr # rrs) - analyzed_hashes s)" by simp
  from grep_step[of E s "fst rr" "snd rr"]
  consider (same) "length (cmds s') = length (cmds s) + hc s"
    | (more) "length (cmds s') = Suc (length (cmds s) + hc s)"
        "h rr \<notin> analyzed_hashes s" "h rr \<in> analyzed_hashes s'"
    using g unfolding s'_def h_def by auto
  then have "length (cmds s') + card (h ` set rrs - analyzed_hashes s')
        \<le> length (cmds s) + hc s + card (h ` set (rr # rrs) - analyzed_hashes s)"
  proof cases
    case same
    have "h ` set rrs - analyzed_hashes s' \<subseteq> h ` set (rr # rrs) - analyzed_hashes s"
      using mono by auto
    from card_mono[OF fin this] same show ?thesis by simp
  next
    case more
    have "h ` set rrs - analyzed_hashes s' \<subseteq> (h ` set (rr # rrs) - analyzed_hashes s) - {h rr}"
      using mono more(3) by auto
    from card_mono[OF _ this] have "card (h ` set rrs - analyzed_hashes s')
        \<le> card ((h ` set (rr # rrs) - analyzed_hashes s) - {h rr})" by simp
    also have "\<dots> = card (h ` set (rr # rrs) - analyzed_hashes s) - 1"
      using more(2) by (subst card_Diff_singleton) auto
    finally have "card (h ` set rrs - analyzed_hashes s') \<le> card (h ` set (rr # rrs) - analyzed_hashes s) - 1" .
    moreover have "card (h ` set (rr # rrs) - analyzed_hashes s) > 0"
      using more(2) fin by (auto simp: card_gt_0_iff)
    ultimately show ?thesis using more(1) by simp
  qed
  with IH show ?case by (simp add: s'_def h_def)
qed

lemma session_bound':
  assumes g: "g = get_url \<or> g = get_body"
  shows "length (cmds (session E s rrs)) \<le> length (cmds s) + hc s + card ((\<lambda>rr. g (snd rr)) ` set rrs)"
proof -
  have a: "card ((\<lambda>rr. md5_hexdigest E (g (snd rr))) ` set rrs - analyzed_hashes s)
     \<le> card ((\<lambda>rr. md5_hexdigest E (g (snd rr))) ` set rrs)"
    by (rule card_mono) auto
  have b: "(\<lambda>rr. md5_hexdigest E (g (snd rr))) ` set rrs = md5_hexdigest E ` ((\<lambda>rr. g (snd rr)) ` set rrs)"
    by auto
  have c: "card (md5_hexdigest E ` ((\<lambda>rr. g (snd rr)) ` set rrs)) \<le> card ((\<lambda>rr. g (snd rr)) ` set rrs)"
    by (rule card_image_le) simp
  from a c have "card ((\<lambda>rr. md5_hexdigest E (g (snd rr))) ` set rrs - analyzed_hashes s)
     \<le> card ((\<lambda>rr. g (snd rr)) ` set rrs)" unfolding b by linarith
  with session_bound[OF g, of E s rrs] show ?thesis by linarith
qed


lemma grep_skips_seen:
  assumes run: "retirejs_exit_code_was_run s"
    and seen: "md5_hexdigest E (get_url r) \<in> analyzed_hashes s \<or>
               md5_hexdigest E (get_body r) \<in> analyzed_hashes s"
  shows "cmds (final (grep E s rq r)) = cmds s"
proof -
  have nf: "\<not> fst (should_analyze E s r)"
    using seen should_analyze_True[of E s r] by blast
  from grep_run_cases[OF run, of E rq r] nf
  have "grep E s rq r = Inr s \<or> grep E s rq r = Inr (snd (should_analyze E s r))" by blast
  then show ?thesis by (auto simp: final_def should_analyze_frame)
qed

section \<open>Findings: severity, rendering, dropped results\<close>

lemmas kb_defs = handle_result_def retire_vuln_def add_vulnerability_def get_severity_def
  to_string_def summary_line_def fmt_s_def str_lower_def lower_char_def get_name_def
  kb_append_uniq_def om_debug_def final_def

lemma py_lower_high:
  "(py_lower j = Inr ''high'') = (\<exists>x. j = JStr x \<and> str_lower x = ''high'')"
  by (cases j) auto

lemma get_severity_loop_sound:
  "get_severity_loop vs = Inr sev \<Longrightarrow>
     sev = (if \<exists>v\<in>set vs. py_lower (severity v) = Inr ''high'' then MEDIUM else LOW)"
proof (induction vs)
  case Nil then show ?case by simp
next
  case (Cons v vs)
  then show ?case by (cases "py_lower (severity v)") (auto split: if_splits)
qed

lemma get_severity_loop_fail:
  "get_severity_loop vs = Inl e \<Longrightarrow>
     e = AttributeError \<and> (\<exists>v\<in>set vs. \<forall>x. severity v \<noteq> JStr x)"
proof (induction vs)
  case Nil then show ?case by simp
next
  case (Cons v vs)
  then show ?case by (cases "severity v") (auto split: if_splits)
qed

lemma get_severity_loop_total:
  "\<forall>v\<in>set vs. \<exists>x. severity v = JStr x \<Longrightarrow> \<exists>sev. get_severity_loop vs = Inr sev"
  by (induction vs) auto

lemma handle_result_new_record:
  assumes "v \<in> set (kb (final (handle_result E s resp jr)))" "v \<notin> set (kb s)"
  shows "\<exists>component' version' vulnerabilities' vs m.
           py_get jr ''component'' JNull = Inr component' \<and>
           py_get jr ''version'' JNull = Inr version' \<and>
           py_get jr ''vulnerabilities'' (JArr []) = Inr vulnerabilities' \<and>
           py_iter vulnerabilities' = Inr vs \<and>
           add_vulnerabilities \<lparr>response = resp, component = component', version = version',
                                vulnerabilities = []\<rparr> vs = Inr m \<and>
           get_severity m = Inr (kb_severity v) \<and>
           kb_desc v = to_string E m \<and>
           kb_uri v = Some (get_uri resp)"
  using assms
  by (auto simp: handle_result_def final_def om_debug_def kb_append_uniq_def Let_def
           split: sum.splits if_splits)

lemma handle_result_same_kb:
  "kb s = kb t \<Longrightarrow> same_kb (handle_result E s resp j) (handle_result E t resp j)"
  by (simp add: handle_result_def same_kb_def om_debug_def kb_append_uniq_def Let_def
        split: sum.splits)

lemma handle_results_same_kb:
  "kb s = kb t \<Longrightarrow> same_kb (handle_results E s resp js) (handle_results E t resp js)"
proof (induction js arbitrary: s t)
  case Nil then show ?case by (simp add: same_kb_def)
next
  case (Cons j js)
  have h: "same_kb (handle_result E s resp j) (handle_result E t resp j)"
    by (rule handle_result_same_kb[OF Cons.prems])
  show ?case
  proof (cases "handle_result E s resp j")
    case (Inl x)
    with h show ?thesis by (auto simp: same_kb_def split: sum.splits prod.splits)
  next
    case (Inr s')
    with h obtain t' where t': "handle_result E t resp j = Inr t'" "kb t' = kb s'"
      by (auto simp: same_kb_def split: sum.splits)
    from Cons.IH[of s' t'] t'(2) have "same_kb (handle_results E s' resp js) (handle_results E t' resp js)"
      by simp
    with Inr t'(1) show ?thesis by simp
  qed
qed

lemma same_kb_final: "same_kb a b \<Longrightarrow> kb (final a) = kb (final b)"
  by (auto simp: same_kb_def final_def split: sum.splits)

lemma handle_result_malformed:
  assumes "map_of kvs ''component'' = None \<or> map_of kvs ''version'' = None \<or>
   map_of kvs ''vulnerabilities'' = Some (JArr []) \<or> map_of kvs ''vulnerabilities'' = None"
  shows "\<exists>msg. handle_result E s resp (JObj kvs) = Inr (om_debug msg s)"
proof (cases "map_of kvs ''version'' = None \<or> map_of kvs ''version'' = Some JNull \<or>
              map_of kvs ''component'' = None \<or> map_of kvs ''component'' = Some JNull")
  case True
  then show ?thesis by (auto simp: handle_result_def)
next
  case False
  then obtain ver comp where vc: "map_of kvs ''version'' = Some ver" "ver \<noteq> JNull"
      "map_of kvs ''component'' = Some comp" "comp \<noteq> JNull" by auto
  with assms have "map_of kvs ''vulnerabilities'' = Some (JArr []) \<or> map_of kvs ''vulnerabilities'' = None"
    by auto
  with vc show ?thesis by (auto simp: handle_result_def)
qed

lemma str_join_contains:
  "x \<in> set xs \<Longrightarrow> \<exists>pre post. str_join sep xs = pre @ x @ post"
proof (induction sep xs rule: str_join.induct)
  case (1 sep) then show ?case by simp
next
  case (2 sep y)
  then have "str_join sep [y] = [] @ x @ []" by simp
  then show ?case by blast
next
  case (3 sep a b ys)
  show ?case
  proof (cases "x = a")
    case True
    then have "str_join sep (a # b # ys) = [] @ x @ (sep @ str_join sep (b # ys))" by simp
    then show ?thesis by blast
  next
    case False
    with 3 obtain pre post where "str_join sep (b # ys) = pre @ x @ post" by auto
    then have "str_join sep (a # b # ys) = (a @ sep @ pre) @ x @ post" by simp
    then show ?thesis by blast
  qed
qed

lemma to_string_contains:
  assumes "v \<in> set (vulnerabilities m)"
  shows "\<exists>pre post. to_string E m = pre @ '' - '' @ fmt_s E (summary v) @ post"
proof -
  from assms have "summary_line E v \<in> set (map (summary_line E) (vulnerabilities m))" by simp
  from str_join_contains[OF this, of "[CHR 0x0A]"] obtain pre post where
    j: "str_join [CHR 0x0A] (map (summary_line E) (vulnerabilities m)) = pre @ summary_line E v @ post"
    by blast
  define a where "a = ''A JavaScript library with known vulnerabilities was identified at ''
         @ get_url (response m)
         @ ''. The library was identified as '' @ [CHR 0x22] @ fmt_s E (component m) @ [CHR 0x22]
         @ '' version '' @ fmt_s E (version m)
         @ '' and has these known vulnerabilities:'' @ [CHR 0x0A, CHR 0x0A]"
  define b where "b = [CHR 0x0A, CHR 0x0A]
         @ ''Consider updating to the latest stable release of the affected library.''"
  have "to_string E m = a @ str_join [CHR 0x0A] (map (summary_line E) (vulnerabilities m)) @ b"
    by (simp add: to_string_def a_def b_def)
  with j have "to_string E m = (a @ pre) @ '' - '' @ fmt_s E (summary v) @ (post @ b)"
    by (simp add: summary_line_def)
  then show ?thesis by blast
qed

lemma add_vulnerabilities_keeps:
  "add_vulnerabilities m0 es = Inr m \<Longrightarrow>
     set (vulnerabilities m0) \<subseteq> set (vulnerabilities m) \<and>
     (\<forall>e\<in>set es. \<exists>v. retire_vuln e = Inr v \<and> v \<in> set (vulnerabilities m))"
proof (induction es arbitrary: m0)
  case Nil then show ?case by simp
next
  case (Cons e es)
  then obtain v where v: "retire_vuln e = Inr v"
    and r: "add_vulnerabilities (add_vulnerability m0 v) es = Inr m"
    by (auto split: sum.splits)
  from Cons.IH[OF r] v show ?case by (auto simp: add_vulnerability_def)
qed

lemma get_severity_loop_unknown:
  "severity v = JStr ''unknown'' \<Longrightarrow>
     get_severity_loop (xs @ v # ys) = get_severity_loop (xs @ ys)"
  by (induction xs) (auto simp: str_lower_def lower_char_def split: sum.splits)

lemma retire_vuln_defaults:
  assumes "map_of kvs ''identifiers'' = None \<or> (\<exists>ids. map_of kvs ''identifiers'' = Some (JObj ids))"
  shows "\<exists>v. retire_vuln (JObj kvs) = Inr v
         \<and> (map_of kvs ''severity'' = None \<longrightarrow> severity v = JStr ''unknown'')
         \<and> (map_of kvs ''identifiers'' = None \<or>
             (\<exists>ids. map_of kvs ''identifiers'' = Some (JObj ids) \<and> map_of ids ''summary'' = None)
               \<longrightarrow> summary v = JStr ''unknown'')
         \<and> (map_of kvs ''info'' = None \<longrightarrow> info_urls v = JArr [])"
  using assms by (auto simp: retire_vuln_def split: option.splits)

section \<open>Temporary files, the analyzer run and the health check\<close>

lemma json_to_kb_empty: "json_to_kb E t resp (JArr []) = Inr t"
  by (simp add: json_to_kb_def)

lemma analyze_file_unfold:
  assumes "NamedTemporaryFile E ''retirejs-output-'' ''.w3af'' s = (json_file, s1)"
      and "popen_wait E (RETIRE_CMD json_file response_file) s1 = (returncode, s2)"
  shows "analyze_file E s response_file =
     (if returncode \<noteq> 0 then
        (case fst (read_json E json_file s2) of
           Inr doc \<Rightarrow> (doc, remove_file json_file (s2\<lparr>reads := reads s2 @ [json_file]\<rparr>))
         | Inl e \<Rightarrow>
             (JArr [],
              remove_file json_file
                (om_debug (''Failed to parse retirejs output. Exception: '' @
                               [CHR 0x22] @ exc_str e @ [CHR 0x22])
                   (s2\<lparr>reads := reads s2 @ [json_file]\<rparr>))))
      else (JArr [], remove_file json_file s2))"
  using assms
  by (auto simp: analyze_file_def read_json_def file_read_def Let_def
           split: sum.splits option.splits prod.splits)

lemma popen_wait_frame:
  "popen_wait E cmd s1 = (rc, s2) \<Longrightarrow>
     reads s2 = reads s1 \<and> out_debug s2 = out_debug s1 \<and> cmds s2 = cmds s1 @ [cmd] \<and>
     kb s2 = kb s1 \<and> analyzed_hashes s2 = analyzed_hashes s1"
  by (auto simp: popen_wait_def split: prod.splits)

lemma NamedTemporaryFile_frame:
  "NamedTemporaryFile E p x s = (n, s1) \<Longrightarrow>
     reads s1 = reads s \<and> out_debug s1 = out_debug s \<and> cmds s1 = cmds s \<and>
     kb s1 = kb s \<and> files s1 = (files s)(n \<mapsto> []) \<and> n = tmp_name E (files s) p x"
  by (auto simp: NamedTemporaryFile_def Let_def)

lemma remove_file_absent: "files t p = None \<Longrightarrow> remove_file p t = t"
  by (simp add: remove_file_def os_remove_def)

lemma save_response_to_file_unfold:
  "save_response_to_file E s resp = (response_file, s1) \<Longrightarrow>
     response_file = tmp_name E (files s) ''retirejs-response-'' ''.w3af.js'' \<and>
     files s1 = (files s)(response_file \<mapsto> get_body resp)"
  by (auto simp: save_response_to_file_def NamedTemporaryFile_def file_write_def Let_def)

lemma analyze_file_files:
  assumes "NamedTemporaryFile E ''retirejs-output-'' ''.w3af'' s = (json_file, s1)"
  shows "files (snd (analyze_file E s response_file)) json_file = None"
proof -
  obtain rc s2 where p: "popen_wait E (RETIRE_CMD json_file response_file) s1 = (rc, s2)"
    by (cases "popen_wait E (RETIRE_CMD json_file response_file) s1")
  show ?thesis
    by (simp add: analyze_file_unfold[OF assms p] om_debug_def split: sum.splits)
qed

lemma session_disabled:
  "retirejs_exit_code_was_run s \<Longrightarrow> retirejs_exit_code_result s = Some False \<Longrightarrow>
     session E s rrs = s"
  by (induction rrs) (simp_all add: grep_def retirejs_exit_code_run final_def)

lemma retirejs_exit_code_first:
  assumes "\<not> retirejs_exit_code_was_run s"
      and "NamedTemporaryFile E ''retirejs-check-'' ''.w3af'' s = (check_file, s1)"
      and "NamedTemporaryFile E ''retirejs-output-'' ''.w3af'' s1 = (output_file, s3)"
      and "popen_wait E (RETIRE_CMD output_file check_file) s3 = (returncode, s4)"
  shows "retirejs_exit_code E s =
     (Some (returncode = 0),
      remove_file check_file (remove_file output_file
        ((if returncode \<noteq> 0
          then om_error ''Unexpected retire.js exit code. Disabling grep.retirejs plugin.'' s4
          else om_debug ''retire.js returned the expected exit code.'' s4)
         \<lparr>retirejs_exit_code_was_run := True,
          retirejs_exit_code_result := Some (returncode = 0)\<rparr>)))"
proof -
  from NamedTemporaryFile_frame[OF assms(2)]
  have "files s1 check_file = Some []" by simp
  then have w: "file_write check_file [] s1 = s1"
    by (simp add: file_write_def fun_upd_idem)
  show ?thesis
    using assms
    by (simp add: retirejs_exit_code_def w check_output_def Let_def om_error_def om_debug_def)
qed

section \<open>The claims\<close>

subsection \<open>C1: deduplication short-circuit\<close>

text \<open>
  Claim C1. A response whose URL hash or body hash is in the cache is refused by
  \<open>should_analyze\<close>, and \<open>grep\<close> (health check done) starts no command for it. Hence:
  once a response has been analyzed, a response with the same body met later in the
  session, whatever was processed in between, starts no command; and over a whole
  session the number of commands started is at most the one of the health check, if
  still due, plus the number of distinct URLs of the session, and likewise at most that
  plus the number of distinct bodies. Every analysis starts exactly one command, so
  commands count analyses.
\<close>

theorem dedup_short_circuit:
  "(md5_hexdigest E (get_url r) \<in> analyzed_hashes s \<or>
    md5_hexdigest E (get_body r) \<in> analyzed_hashes s \<longrightarrow>
      \<not> fst (should_analyze E s r) \<and>
      (retirejs_exit_code_was_run s \<longrightarrow> cmds (final (grep E s rq r)) = cmds s))
   \<and> (retirejs_exit_code_was_run s \<and> cmds (final (grep E s rqa ra)) \<noteq> cmds s \<and>
        get_body rb = get_body ra \<longrightarrow>
          cmds (final (grep E (session E (final (grep E s rqa ra)) between) rqb rb)) =
          cmds (session E (final (grep E s rqa ra)) between))
   \<and> length (cmds (session E s rrs)) \<le>
        length (cmds s) + (if retirejs_exit_code_was_run s then 0 else 1) +
        card ((\<lambda>rr. get_url (snd rr)) ` set rrs)
   \<and> length (cmds (session E s rrs)) \<le>
        length (cmds s) + (if retirejs_exit_code_was_run s then 0 else 1) +
        card ((\<lambda>rr. get_body (snd rr)) ` set rrs)"
proof (intro conjI impI)
  assume "md5_hexdigest E (get_url r) \<in> analyzed_hashes s \<or>
          md5_hexdigest E (get_body r) \<in> analyzed_hashes s"
  then show "\<not> fst (should_analyze E s r)"
    using should_analyze_True[of E s r] by blast
next
  assume "md5_hexdigest E (get_url r) \<in> analyzed_hashes s \<or>
          md5_hexdigest E (get_body r) \<in> analyzed_hashes s"
    and "retirejs_exit_code_was_run s"
  then show "cmds (final (grep E s rq r)) = cmds s"
    by (simp add: grep_skips_seen)
next
  assume a: "retirejs_exit_code_was_run s \<and> cmds (final (grep E s rqa ra)) \<noteq> cmds s \<and>
        get_body rb = get_body ra"
  define s1 where "s1 = final (grep E s rqa ra)"
  define s2 where "s2 = session E s1 between"
  from a grep_run_cases[of s E rqa ra]
  have "fst (should_analyze E s ra) \<and> grep E s rqa ra = analyze_response E (snd (should_analyze E s ra)) ra"
    by (auto simp: final_def should_analyze_frame)
  with should_analyze_after(2)[of E s ra]
  have "md5_hexdigest E (get_body ra) \<in> analyzed_hashes s1"
    by (simp add: s1_def analyze_response_frame)
  with session_mono[of s1 E between] a
  have seen: "md5_hexdigest E (get_body rb) \<in> analyzed_hashes s2"
    by (auto simp: s2_def)
  have "retirejs_exit_code_was_run s1" using grep_step[of E s rqa ra] by (simp add: s1_def)
  then have "retirejs_exit_code_was_run s2" by (simp add: s2_def session_was_run)
  from grep_skips_seen[OF this, of E rb rqb] seen
  show "cmds (final (grep E (session E (final (grep E s rqa ra)) between) rqb rb)) =
          cmds (session E (final (grep E s rqa ra)) between)"
    by (simp add: s1_def s2_def)
next
  show "length (cmds (session E s rrs)) \<le>
        length (cmds s) + (if retirejs_exit_code_was_run s then 0 else 1) +
        card ((\<lambda>rr. get_url (snd rr)) ` set rrs)"
    using session_bound'[of get_url E s rrs] by (simp add: hc_def)
next
  show "length (cmds (session E s rrs)) \<le>
        length (cmds s) + (if retirejs_exit_code_was_run s then 0 else 1) +
        card ((\<lambda>rr. get_body (snd rr)) ` set rrs)"
    using session_bound'[of get_body E s rrs] by (simp add: hc_def)
qed


text \<open>
  The theorem at work: a cache that knows the URL of \<^verbatim>\<open>a.js\<close>; \<^verbatim>\<open>b.js\<close> is analyzed,
  \<^verbatim>\<open>c.js\<close> with the same body is not, and two responses for \<^verbatim>\<open>b.js\<close> cost one command.
\<close>

theorem dedup_short_circuit_witness:
  "md5_hexdigest (demo_env 0 None) (get_url (demo_response ''http://h/a.js'' ''A''))
      \<in> analyzed_hashes (checked_state\<lparr>analyzed_hashes := {''md5:http://h/a.js''}\<rparr>)
   \<and> \<not> fst (should_analyze (demo_env 0 None)
               (checked_state\<lparr>analyzed_hashes := {''md5:http://h/a.js''}\<rparr>)
               (demo_response ''http://h/a.js'' ''A''))
   \<and> cmds (final (grep (demo_env 0 None)
               (checked_state\<lparr>analyzed_hashes := {''md5:http://h/a.js''}\<rparr>)
               demo_request (demo_response ''http://h/a.js'' ''A''))) = []
   \<and> cmds (final (grep (demo_env 0 None)
               (checked_state\<lparr>analyzed_hashes := {''md5:http://h/a.js''}\<rparr>)
               demo_request (demo_response ''http://h/b.js'' ''B''))) \<noteq> []
   \<and> cmds (final (grep (demo_env 0 None)
          (session (demo_env 0 None)
             (final (grep (demo_env 0 None)
                (checked_state\<lparr>analyzed_hashes := {''md5:http://h/a.js''}\<rparr>)
                demo_request (demo_response ''http://h/b.js'' ''B'')))
             [(demo_request, demo_response ''http://h/d.js'' ''D'')])
          demo_request (demo_response ''http://h/c.js'' ''B''))) =
       cmds (session (demo_env 0 None)
             (final (grep (demo_env 0 None)
                (checked_state\<lparr>analyzed_hashes := {''md5:http://h/a.js''}\<rparr>)
                demo_request (demo_response ''http://h/b.js'' ''B'')))
             [(demo_request, demo_response ''http://h/d.js'' ''D'')])
   \<and> length (cmds (session (demo_env 0 None)
          (checked_state\<lparr>analyzed_hashes := {''md5:http://h/a.js''}\<rparr>)
          [(demo_request, demo_response ''http://h/b.js'' ''B''),
           (demo_request, demo_response ''http://h/b.js'' ''B2'')])) \<le> 1"
proof -
  let ?E = "demo_env 0 None"
  let ?s = "checked_state\<lparr>analyzed_hashes := {''md5:http://h/a.js''}\<rparr>"
  let ?r = "demo_response ''http://h/a.js'' ''A''"
  let ?r1 = "demo_response ''http://h/b.js'' ''B''"
  let ?r2 = "demo_response ''http://h/c.js'' ''B''"
  let ?between = "[(demo_request, demo_response ''http://h/d.js'' ''D'')]"
  let ?rrs = "[(demo_request, demo_response ''http://h/b.js'' ''B''),
           (demo_request, demo_response ''http://h/b.js'' ''B2'')]"
  have h1: "md5_hexdigest ?E (get_url ?r) \<in> analyzed_hashes ?s"
    by (simp add: demo_defs)
  have h2: "retirejs_exit_code_was_run ?s" by (simp add: demo_defs)
  have h3: "cmds (final (grep ?E ?s demo_request ?r1)) \<noteq> cmds ?s"
    by (simp add: demo_defs run_defs)
  have h4: "get_body ?r2 = get_body ?r1" by (simp add: demo_defs)
  have c: "cmds ?s = []" by (simp add: demo_defs)
  have k: "card ((\<lambda>rr. get_url (snd rr)) ` set ?rrs) = 1" by (simp add: demo_defs)
  from dedup_short_circuit[where E="?E" and s="?s" and r="?r" and rq=demo_request
      and rqa=demo_request and ra="?r1" and rb="?r2" and rqb=demo_request
      and between="?between" and rrs="?rrs"] h1 h2 h3 h4
  show ?thesis unfolding k c by simp
qed

subsection \<open>C9: the cache is written before the analysis\<close>

text \<open>
  Claim C9. Recording is not atomic with analysis. When the URL hash is fresh and the body
  hash is in the cache, \<open>should_analyze\<close> adds the URL hash and returns \<^verbatim>\<open>False\<close>: a
  response that passes the filters of \<open>grep\<close> leaves the URL marked as seen and is not
  analyzed. When both hashes are fresh (and differ), both are added and the answer is
  \<^verbatim>\<open>True\<close>: \<open>grep\<close> runs the analysis from a state that already holds both, and both are
  in the cache afterwards whether the analysis returned or raised.
\<close>

theorem recording_precedes_analysis:
  "(md5_hexdigest E (get_url r) \<notin> analyzed_hashes s \<and>
    md5_hexdigest E (get_body r) \<in> analyzed_hashes s \<longrightarrow>
      should_analyze E s r =
        (False, s\<lparr>analyzed_hashes := insert (md5_hexdigest E (get_url r)) (analyzed_hashes s)\<rparr>)
      \<and> (retirejs_exit_code_was_run s \<and> retirejs_exit_code_result s = Some True \<and>
         get_method rq = ''GET'' \<and> get_code r = 200 \<and> is_text_or_html r \<longrightarrow>
           grep E s rq r =
             Inr (s\<lparr>analyzed_hashes := insert (md5_hexdigest E (get_url r)) (analyzed_hashes s)\<rparr>)))
   \<and> (md5_hexdigest E (get_url r) \<notin> analyzed_hashes s \<and>
      md5_hexdigest E (get_body r) \<notin> analyzed_hashes s \<and>
      md5_hexdigest E (get_url r) \<noteq> md5_hexdigest E (get_body r) \<longrightarrow>
        should_analyze E s r =
          (True, s\<lparr>analyzed_hashes := insert (md5_hexdigest E (get_body r))
                      (insert (md5_hexdigest E (get_url r)) (analyzed_hashes s))\<rparr>)
        \<and> (retirejs_exit_code_was_run s \<and> retirejs_exit_code_result s = Some True \<and>
           get_method rq = ''GET'' \<and> get_code r = 200 \<and> is_text_or_html r \<longrightarrow>
             grep E s rq r =
               analyze_response E
                 (s\<lparr>analyzed_hashes := insert (md5_hexdigest E (get_body r))
                      (insert (md5_hexdigest E (get_url r)) (analyzed_hashes s))\<rparr>) r
             \<and> analyzed_hashes (final (grep E s rq r)) =
                 insert (md5_hexdigest E (get_body r))
                   (insert (md5_hexdigest E (get_url r)) (analyzed_hashes s))))"
  by (simp add: should_analyze_def grep_def retirejs_exit_code_run METHODS_def HTTP_CODES_def
        Let_def analyze_response_frame)

theorem recording_precedes_analysis_witness:
  "should_analyze (demo_env 13 (Some ''garbage''))
      (checked_state\<lparr>analyzed_hashes := {''md5:B''}\<rparr>) (demo_response ''http://h/a.js'' ''B'')
     = (False, checked_state\<lparr>analyzed_hashes := {''md5:http://h/a.js'', ''md5:B''}\<rparr>)
   \<and> grep (demo_env 13 (Some ''garbage''))
      (checked_state\<lparr>analyzed_hashes := {''md5:B''}\<rparr>) demo_request (demo_response ''http://h/a.js'' ''B'')
     = Inr (checked_state\<lparr>analyzed_hashes := {''md5:http://h/a.js'', ''md5:B''}\<rparr>)
   \<and> should_analyze (demo_env 13 (Some ''garbage''))
      (checked_state\<lparr>analyzed_hashes := {''md5:B''}\<rparr>) (demo_response ''http://h/c.js'' ''C'')
     = (True, checked_state\<lparr>analyzed_hashes := {''md5:C'', ''md5:http://h/c.js'', ''md5:B''}\<rparr>)
   \<and> analyzed_hashes (final (grep (demo_env 13 (Some ''garbage''))
      (checked_state\<lparr>analyzed_hashes := {''md5:B''}\<rparr>) demo_request (demo_response ''http://h/c.js'' ''C'')))
     = {''md5:C'', ''md5:http://h/c.js'', ''md5:B''}"
  using recording_precedes_analysis[where E="demo_env 13 (Some ''garbage'')"
      and s="checked_state\<lparr>analyzed_hashes := {''md5:B''}\<rparr>" and rq=demo_request
      and r="demo_response ''http://h/a.js'' ''B''"]
    recording_precedes_analysis[where E="demo_env 13 (Some ''garbage'')"
      and s="checked_state\<lparr>analyzed_hashes := {''md5:B''}\<rparr>" and rq=demo_request
      and r="demo_response ''http://h/c.js'' ''C''"]
  by (simp add: demo_defs analyze_response_frame)

subsection \<open>C2: severity normalization\<close>

text \<open>
  Claim C2. For a report whose vulnerabilities all carry a string as severity,
  \<open>get_severity\<close> returns \<open>MEDIUM\<close> when the lowered severity of at least one of them is
  \<^verbatim>\<open>'high'\<close>, and \<open>LOW\<close> otherwise. Whenever \<open>get_severity\<close> returns, what it returns
  follows this rule; it fails to return only with \<^verbatim>\<open>AttributeError\<close>, on a severity that
  is not a string. Every record that \<open>handle_result\<close> adds to the knowledge base carries
  the severity that \<open>get_severity\<close> derived for the report built from the result, which
  is \<open>MEDIUM\<close> or \<open>LOW\<close> by the same rule, never the analyzer's own string.
\<close>

theorem severity_normalization:
  "((\<forall>v\<in>set (vulnerabilities m). \<exists>x. severity v = JStr x) \<longrightarrow>
      get_severity m =
        Inr (if \<exists>v\<in>set (vulnerabilities m). \<exists>x. severity v = JStr x \<and> str_lower x = ''high''
             then MEDIUM else LOW))
   \<and> (get_severity m = Inr sev \<longrightarrow>
        sev = (if \<exists>v\<in>set (vulnerabilities m). \<exists>x. severity v = JStr x \<and> str_lower x = ''high''
               then MEDIUM else LOW))
   \<and> (get_severity m = Inl e \<longrightarrow>
        e = AttributeError \<and> (\<exists>v\<in>set (vulnerabilities m). \<forall>x. severity v \<noteq> JStr x))
   \<and> (v \<in> set (kb (final (handle_result E s resp jr))) \<and> v \<notin> set (kb s) \<longrightarrow>
        (\<exists>component' version' vulnerabilities' vs m'.
           py_get jr ''component'' JNull = Inr component' \<and>
           py_get jr ''version'' JNull = Inr version' \<and>
           py_get jr ''vulnerabilities'' (JArr []) = Inr vulnerabilities' \<and>
           py_iter vulnerabilities' = Inr vs \<and>
           add_vulnerabilities \<lparr>response = resp, component = component', version = version',
                                vulnerabilities = []\<rparr> vs = Inr m' \<and>
           get_severity m' = Inr (kb_severity v) \<and>
           kb_severity v =
             (if \<exists>w\<in>set (vulnerabilities m'). \<exists>x. severity w = JStr x \<and> str_lower x = ''high''
              then MEDIUM else LOW)))"
proof (intro conjI impI)
  have eq: "\<And>vs. (\<exists>v\<in>set vs. py_lower (severity v) = Inr ''high'') \<longleftrightarrow>
        (\<exists>v\<in>set vs. \<exists>x. severity v = JStr x \<and> str_lower x = ''high'')"
    by (simp add: py_lower_high)
  {
    assume "\<forall>v\<in>set (vulnerabilities m). \<exists>x. severity v = JStr x"
    from get_severity_loop_total[OF this] obtain sev
      where sev: "get_severity_loop (vulnerabilities m) = Inr sev" by blast
    from get_severity_loop_sound[OF sev] sev eq[of "vulnerabilities m"]
    show "get_severity m =
        Inr (if \<exists>v\<in>set (vulnerabilities m). \<exists>x. severity v = JStr x \<and> str_lower x = ''high''
             then MEDIUM else LOW)"
      by (simp add: get_severity_def)
  }
  {
    assume "get_severity m = Inr sev"
    then have "get_severity_loop (vulnerabilities m) = Inr sev" by (simp add: get_severity_def)
    from get_severity_loop_sound[OF this] eq[of "vulnerabilities m"]
    show "sev = (if \<exists>v\<in>set (vulnerabilities m). \<exists>x. severity v = JStr x \<and> str_lower x = ''high''
               then MEDIUM else LOW)"
      by simp
  }
  {
    assume "get_severity m = Inl e"
    then have f: "get_severity_loop (vulnerabilities m) = Inl e" by (simp add: get_severity_def)
    from get_severity_loop_fail[OF f] show "e = AttributeError" by blast
    from get_severity_loop_fail[OF f]
    show "\<exists>v\<in>set (vulnerabilities m). \<forall>x. severity v \<noteq> JStr x" by blast
  }
  {
    assume a: "v \<in> set (kb (final (handle_result E s resp jr))) \<and> v \<notin> set (kb s)"
    from handle_result_new_record[of v E s resp jr] a
    obtain component' version' vulnerabilities' vs m' where r:
      "py_get jr ''component'' JNull = Inr component'"
      "py_get jr ''version'' JNull = Inr version'"
      "py_get jr ''vulnerabilities'' (JArr []) = Inr vulnerabilities'"
      "py_iter vulnerabilities' = Inr vs"
      "add_vulnerabilities \<lparr>response = resp, component = component', version = version',
                                vulnerabilities = []\<rparr> vs = Inr m'"
      "get_severity m' = Inr (kb_severity v)"
      by blast
    from get_severity_loop_sound[of "vulnerabilities m'" "kb_severity v"] r(6) eq[of "vulnerabilities m'"]
    have "kb_severity v =
             (if \<exists>w\<in>set (vulnerabilities m'). \<exists>x. severity w = JStr x \<and> str_lower x = ''high''
              then MEDIUM else LOW)"
      by (simp add: get_severity_def)
    with r show "\<exists>component' version' vulnerabilities' vs m'.
           py_get jr ''component'' JNull = Inr component' \<and>
           py_get jr ''version'' JNull = Inr version' \<and>
           py_get jr ''vulnerabilities'' (JArr []) = Inr vulnerabilities' \<and>
           py_iter vulnerabilities' = Inr vs \<and>
           add_vulnerabilities \<lparr>response = resp, component = component', version = version',
                                vulnerabilities = []\<rparr> vs = Inr m' \<and>
           get_severity m' = Inr (kb_severity v) \<and>
           kb_severity v =
             (if \<exists>w\<in>set (vulnerabilities m'). \<exists>x. severity w = JStr x \<and> str_lower x = ''high''
              then MEDIUM else LOW)"
      by blast
  }
qed

text \<open>
  The two examples of severities \<^verbatim>\<open>["high", "low"]\<close> and \<^verbatim>\<open>["low", "unknown"]\<close>, and the
  record stored for a result that the analyzer rated \<^verbatim>\<open>High\<close>.
\<close>

theorem severity_normalization_witness:
  "get_severity (demo_message [''high'', ''low'']) = Inr MEDIUM
   \<and> get_severity (demo_message [''low'', ''unknown'']) = Inr LOW
   \<and> kb (final (handle_result (demo_env 13 None) checked_state
         (demo_response ''http://h/a.js'' ''B'') demo_result)) \<noteq> []
   \<and> kb_severity (hd (kb (final (handle_result (demo_env 13 None) checked_state
         (demo_response ''http://h/a.js'' ''B'') demo_result)))) = MEDIUM
   \<and> (\<exists>m'. get_severity m' = Inr (kb_severity (hd (kb (final (handle_result (demo_env 13 None)
         checked_state (demo_response ''http://h/a.js'' ''B'') demo_result))))))"
proof -
  let ?v = "hd (kb (final (handle_result (demo_env 13 None) checked_state
         (demo_response ''http://h/a.js'' ''B'') demo_result)))"
  have h1: "\<forall>v\<in>set (vulnerabilities (demo_message [''high'', ''low''])). \<exists>x. severity v = JStr x"
    by (simp add: demo_defs)
  have h2: "\<forall>v\<in>set (vulnerabilities (demo_message [''low'', ''unknown''])). \<exists>x. severity v = JStr x"
    by (simp add: demo_defs)
  have h3: "?v \<in> set (kb (final (handle_result (demo_env 13 None) checked_state
         (demo_response ''http://h/a.js'' ''B'') demo_result))) \<and> ?v \<notin> set (kb checked_state)"
    by (simp add: demo_defs kb_defs)
  have a: "get_severity (demo_message [''high'', ''low'']) = Inr MEDIUM"
    using severity_normalization[where m="demo_message [''high'', ''low'']"] h1
    by (simp add: demo_defs str_lower_def lower_char_def)
  have b: "get_severity (demo_message [''low'', ''unknown'']) = Inr LOW"
    using severity_normalization[where m="demo_message [''low'', ''unknown'']"] h2
    by (simp add: demo_defs str_lower_def lower_char_def)
  have c: "kb (final (handle_result (demo_env 13 None) checked_state
         (demo_response ''http://h/a.js'' ''B'') demo_result)) \<noteq> []"
    using h3 by auto
  have d: "kb_severity ?v = MEDIUM"
    by (simp add: demo_defs kb_defs)
  from severity_normalization[where v="?v" and E="demo_env 13 None" and s=checked_state
      and resp="demo_response ''http://h/a.js'' ''B''" and jr=demo_result] h3
  have e: "\<exists>m'. get_severity m' = Inr (kb_severity ?v)" by blast
  from a b c d e show ?thesis by blast
qed

subsection \<open>C6: malformed results are dropped\<close>

text \<open>
  Claim C6. A result whose component is absent, or whose version is absent, or whose list
  of vulnerabilities is empty (or absent, the default being the empty list), makes
  \<open>handle_result\<close> return with one more debug message and nothing else changed: the
  knowledge base is as before. The loop over the results goes on with the entries that
  follow, and leaves the knowledge base that it would have left without the dropped entry.
\<close>

theorem malformed_result_dropped:
  "map_of kvs ''component'' = None \<or> map_of kvs ''version'' = None \<or>
   map_of kvs ''vulnerabilities'' = Some (JArr []) \<or> map_of kvs ''vulnerabilities'' = None \<longrightarrow>
     (\<exists>msg. handle_result E s resp (JObj kvs) = Inr (om_debug msg s) \<and>
            handle_results E s resp (JObj kvs # rest) = handle_results E (om_debug msg s) resp rest)
     \<and> kb (final (handle_result E s resp (JObj kvs))) = kb s
     \<and> kb (final (handle_results E s resp (JObj kvs # rest))) =
         kb (final (handle_results E s resp rest))"
proof
  assume a: "map_of kvs ''component'' = None \<or> map_of kvs ''version'' = None \<or>
   map_of kvs ''vulnerabilities'' = Some (JArr []) \<or> map_of kvs ''vulnerabilities'' = None"
  from handle_result_malformed[OF a, of E s resp]
  obtain msg where m: "handle_result E s resp (JObj kvs) = Inr (om_debug msg s)" by blast
  then have c: "handle_results E s resp (JObj kvs # rest) = handle_results E (om_debug msg s) resp rest"
    by simp
  have "kb (om_debug msg s) = kb s" by (simp add: om_debug_def)
  from same_kb_final[OF handle_results_same_kb[OF this, of E resp rest]]
  have d: "kb (final (handle_results E (om_debug msg s) resp rest)) = kb (final (handle_results E s resp rest))" .
  have e: "kb (final (handle_result E s resp (JObj kvs))) = kb s"
    by (simp add: m final_def om_debug_def)
  from m c have "\<exists>msg. handle_result E s resp (JObj kvs) = Inr (om_debug msg s) \<and>
            handle_results E s resp (JObj kvs # rest) = handle_results E (om_debug msg s) resp rest"
    by blast
  moreover have "kb (final (handle_results E s resp (JObj kvs # rest))) =
         kb (final (handle_results E s resp rest))" by (simp only: c d)
  ultimately show "(\<exists>msg. handle_result E s resp (JObj kvs) = Inr (om_debug msg s) \<and>
            handle_results E s resp (JObj kvs # rest) = handle_results E (om_debug msg s) resp rest)
     \<and> kb (final (handle_result E s resp (JObj kvs))) = kb s
     \<and> kb (final (handle_results E s resp (JObj kvs # rest))) =
         kb (final (handle_results E s resp rest))"
    using e by blast
qed

text \<open>A result with \<^verbatim>\<open>vulnerabilities: []\<close> in front of a well-formed one.\<close>

theorem malformed_result_dropped_witness:
  "map_of [(''component'', JStr ''jquery''), (''version'', JStr ''1.8.1''),
           (''vulnerabilities'', JArr [])] ''vulnerabilities'' = Some (JArr [])
   \<and> kb (final (handle_result (demo_env 13 None) checked_state (demo_response ''http://h/a.js'' ''B'')
        (JObj [(''component'', JStr ''jquery''), (''version'', JStr ''1.8.1''),
               (''vulnerabilities'', JArr [])]))) = []
   \<and> kb (final (handle_results (demo_env 13 None) checked_state (demo_response ''http://h/a.js'' ''B'')
        [JObj [(''component'', JStr ''jquery''), (''version'', JStr ''1.8.1''),
               (''vulnerabilities'', JArr [])], demo_result])) =
     kb (final (handle_results (demo_env 13 None) checked_state (demo_response ''http://h/a.js'' ''B'')
        [demo_result]))
   \<and> length (kb (final (handle_results (demo_env 13 None) checked_state (demo_response ''http://h/a.js'' ''B'')
        [demo_result]))) = 1"
proof -
  have h: "map_of [(''component'', JStr ''jquery''), (''version'', JStr ''1.8.1''),
           (''vulnerabilities'', JArr [])] ''vulnerabilities'' = Some (JArr [])" by simp
  have k: "kb checked_state = []" by (simp add: demo_defs)
  have l: "length (kb (final (handle_results (demo_env 13 None) checked_state (demo_response ''http://h/a.js'' ''B'')
        [demo_result]))) = 1"
    by (simp add: demo_defs kb_defs)
  from malformed_result_dropped[where kvs="[(''component'', JStr ''jquery''), (''version'', JStr ''1.8.1''),
           (''vulnerabilities'', JArr [])]" and E="demo_env 13 None" and s=checked_state
      and resp="demo_response ''http://h/a.js'' ''B''" and rest="[demo_result]"] h k l
  show ?thesis by simp
qed

subsection \<open>C10: defaults of a vulnerability entry\<close>

text \<open>
  Claim C10. In a vulnerability entry (a dictionary whose \<^verbatim>\<open>identifiers\<close>, if present, is
  a dictionary) a missing severity becomes \<^verbatim>\<open>'unknown'\<close>, a missing summary becomes
  \<^verbatim>\<open>'unknown'\<close> and missing references become the empty list. No entry is dropped: every
  entry of the list handed to the report is in the report, with a line for its summary in
  the rendered text, and so in the description of the record that reaches the knowledge
  base. A severity \<^verbatim>\<open>'unknown'\<close> has no effect on the derived severity.
\<close>

theorem vulnerability_defaults:
  "((map_of kvs ''identifiers'' = None \<or> (\<exists>ids. map_of kvs ''identifiers'' = Some (JObj ids))) \<longrightarrow>
      (\<exists>v. retire_vuln (JObj kvs) = Inr v
         \<and> (map_of kvs ''severity'' = None \<longrightarrow> severity v = JStr ''unknown'')
         \<and> (map_of kvs ''identifiers'' = None \<or>
             (\<exists>ids. map_of kvs ''identifiers'' = Some (JObj ids) \<and> map_of ids ''summary'' = None)
               \<longrightarrow> summary v = JStr ''unknown'')
         \<and> (map_of kvs ''info'' = None \<longrightarrow> info_urls v = JArr [])))
   \<and> (add_vulnerabilities m0 es = Inr m \<and> e \<in> set es \<longrightarrow>
        (\<exists>v. retire_vuln e = Inr v \<and> v \<in> set (vulnerabilities m) \<and>
             (\<exists>pre post. to_string E m = pre @ '' - '' @ fmt_s E (summary v) @ post)))
   \<and> (kbrec \<in> set (kb (final (handle_result E s resp jr))) \<and> kbrec \<notin> set (kb s) \<and>
      py_get jr ''vulnerabilities'' (JArr []) = Inr (JArr esr) \<and> er \<in> set esr \<longrightarrow>
        (\<exists>v. retire_vuln er = Inr v \<and>
             (\<exists>pre post. kb_desc kbrec = pre @ '' - '' @ fmt_s E (summary v) @ post)))
   \<and> (severity w = JStr ''unknown'' \<longrightarrow>
        get_severity (mw\<lparr>vulnerabilities := xs @ w # ys\<rparr>) =
        get_severity (mw\<lparr>vulnerabilities := xs @ ys\<rparr>))"
proof (intro conjI impI)
  assume "map_of kvs ''identifiers'' = None \<or> (\<exists>ids. map_of kvs ''identifiers'' = Some (JObj ids))"
  from retire_vuln_defaults[OF this]
  show "\<exists>v. retire_vuln (JObj kvs) = Inr v
         \<and> (map_of kvs ''severity'' = None \<longrightarrow> severity v = JStr ''unknown'')
         \<and> (map_of kvs ''identifiers'' = None \<or>
             (\<exists>ids. map_of kvs ''identifiers'' = Some (JObj ids) \<and> map_of ids ''summary'' = None)
               \<longrightarrow> summary v = JStr ''unknown'')
         \<and> (map_of kvs ''info'' = None \<longrightarrow> info_urls v = JArr [])" .
next
  assume a: "add_vulnerabilities m0 es = Inr m \<and> e \<in> set es"
  with add_vulnerabilities_keeps[of m0 es m] obtain v where
    v: "retire_vuln e = Inr v" "v \<in> set (vulnerabilities m)" by blast
  from to_string_contains[OF v(2), of E] v
  show "\<exists>v. retire_vuln e = Inr v \<and> v \<in> set (vulnerabilities m) \<and>
             (\<exists>pre post. to_string E m = pre @ '' - '' @ fmt_s E (summary v) @ post)" by blast
next
  assume a: "kbrec \<in> set (kb (final (handle_result E s resp jr))) \<and> kbrec \<notin> set (kb s) \<and>
      py_get jr ''vulnerabilities'' (JArr []) = Inr (JArr esr) \<and> er \<in> set esr"
  with handle_result_new_record[of kbrec E s resp jr] obtain c' v' m' where
    r: "add_vulnerabilities \<lparr>response = resp, component = c', version = v',
                                vulnerabilities = []\<rparr> esr = Inr m'"
       "kb_desc kbrec = to_string E m'"
    by auto
  from add_vulnerabilities_keeps[OF r(1)] a obtain v where
    v: "retire_vuln er = Inr v" "v \<in> set (vulnerabilities m')" by blast
  from to_string_contains[OF v(2), of E] v r(2)
  show "\<exists>v. retire_vuln er = Inr v \<and>
             (\<exists>pre post. kb_desc kbrec = pre @ '' - '' @ fmt_s E (summary v) @ post)" by auto
next
  assume "severity w = JStr ''unknown''"
  then show "get_severity (mw\<lparr>vulnerabilities := xs @ w # ys\<rparr>) =
        get_severity (mw\<lparr>vulnerabilities := xs @ ys\<rparr>)"
    by (simp add: get_severity_def get_severity_loop_unknown)
qed


theorem vulnerability_defaults_witness:
  "retire_vuln (JObj [(''identifiers'', JObj [(''CVE'', JArr [JStr ''CVE-2015-9251''])])]) =
     Inr \<lparr>severity = JStr ''unknown'', summary = JStr ''unknown'', info_urls = JArr []\<rparr>
   \<and> kb (final (handle_result (demo_env 13 None) checked_state
         (demo_response ''http://h/a.js'' ''B'') demo_result)) \<noteq> []
   \<and> (\<exists>pre post.
        kb_desc (hd (kb (final (handle_result (demo_env 13 None) checked_state
           (demo_response ''http://h/a.js'' ''B'') demo_result)))) = pre @ '' - unknown'' @ post)
   \<and> get_severity (demo_message [''low'', ''unknown'', ''medium'']) = Inr LOW"
proof -
  let ?kvs = "[(''identifiers'', JObj [(''CVE'', JArr [JStr ''CVE-2015-9251''])])]"
  let ?hi = "JObj [(''severity'', JStr ''High''),
                   (''identifiers'', JObj [(''summary'', JStr ''XSS in load()'')]),
                   (''info'', JArr [JStr ''https://example.org/advisory''])]"
  let ?E = "demo_env 13 None"
  let ?resp = "demo_response ''http://h/a.js'' ''B''"
  let ?rec = "hd (kb (final (handle_result ?E checked_state ?resp demo_result)))"
  let ?w = "\<lparr>severity = JStr ''unknown'', summary = JStr ''XSS'', info_urls = JArr []\<rparr>"
  let ?lo = "\<lparr>severity = JStr ''low'', summary = JStr ''XSS'', info_urls = JArr []\<rparr>"
  let ?me = "\<lparr>severity = JStr ''medium'', summary = JStr ''XSS'', info_urls = JArr []\<rparr>"
  note inst = vulnerability_defaults[where kvs="?kvs" and E="?E" and s=checked_state
      and resp="?resp" and jr=demo_result and kbrec="?rec" and esr="[?hi, JObj ?kvs]"
      and er="JObj ?kvs" and w="?w" and mw="demo_message []" and xs="[?lo]" and ys="[?me]"
      and ?m0.0="demo_message []" and es="[]" and m="demo_message []" and e="JNull"]
  have ev: "retire_vuln (JObj ?kvs) =
     Inr \<lparr>severity = JStr ''unknown'', summary = JStr ''unknown'', info_urls = JArr []\<rparr>"
    by (simp add: retire_vuln_def)
  have h1: "\<exists>ids. map_of ?kvs ''identifiers'' = Some (JObj ids)" by simp
  have h3: "?rec \<in> set (kb (final (handle_result ?E checked_state ?resp demo_result))) \<and>
            ?rec \<notin> set (kb checked_state) \<and>
            py_get demo_result ''vulnerabilities'' (JArr []) = Inr (JArr [?hi, JObj ?kvs]) \<and>
            JObj ?kvs \<in> set [?hi, JObj ?kvs]"
    by (simp add: demo_defs kb_defs)
  have h4: "severity ?w = JStr ''unknown''" by simp
  from inst[THEN conjunct1] h1 have a: "\<exists>v. retire_vuln (JObj ?kvs) = Inr v \<and> severity v = JStr ''unknown''
      \<and> info_urls v = JArr []"
    by auto
  from inst[THEN conjunct2, THEN conjunct2, THEN conjunct1] h3 obtain v pre post where
    v: "retire_vuln (JObj ?kvs) = Inr v" "kb_desc ?rec = pre @ '' - '' @ fmt_s ?E (summary v) @ post"
    by blast
  from v(1) ev have "summary v = JStr ''unknown''" by auto
  with v(2) have "kb_desc ?rec = pre @ '' - unknown'' @ post" by (simp add: fmt_s_def)
  then have b: "\<exists>pre post. kb_desc ?rec = pre @ '' - unknown'' @ post" by blast
  from inst[THEN conjunct2, THEN conjunct2, THEN conjunct2] h4 have "get_severity (demo_message []\<lparr>vulnerabilities := [?lo] @ ?w # [?me]\<rparr>) =
        get_severity (demo_message []\<lparr>vulnerabilities := [?lo] @ [?me]\<rparr>)" by blast
  then have c: "get_severity (demo_message [''low'', ''unknown'', ''medium'']) = Inr LOW"
    by (simp add: demo_defs get_severity_def str_lower_def lower_char_def)
  from h3 have d: "kb (final (handle_result ?E checked_state ?resp demo_result)) \<noteq> []" by auto
  from ev b c d show ?thesis by blast
qed

subsection \<open>C3: the exit status decides whether the output is read\<close>

text \<open>
  Claim C3. Let \<open>json_file\<close> be the output file that \<open>analyze_file\<close> creates and
  \<open>returncode\<close> the return code of the analyzer run on it. If \<open>returncode\<close> is zero,
  \<open>analyze_file\<close> returns the empty document and opens no file for reading. If it is
  not zero, the output file is the one file opened, and the result is the document read
  from it, or the empty document when reading or decoding failed.
\<close>

theorem exit_status_convention:
  assumes "NamedTemporaryFile E ''retirejs-output-'' ''.w3af'' s = (json_file, s1)"
      and "popen_wait E (RETIRE_CMD json_file response_file) s1 = (returncode, s2)"
  shows "(returncode = 0 \<longrightarrow>
            analyze_file E s response_file = (JArr [], remove_file json_file s2) \<and>
            reads (snd (analyze_file E s response_file)) = reads s)
       \<and> (returncode \<noteq> 0 \<longrightarrow>
            reads (snd (analyze_file E s response_file)) = reads s @ [json_file] \<and>
            fst (analyze_file E s response_file) =
              (case fst (read_json E json_file s2) of Inr doc \<Rightarrow> doc | Inl e \<Rightarrow> JArr []))"
  using popen_wait_frame[OF assms(2)] NamedTemporaryFile_frame[OF assms(1)]
  by (auto simp: analyze_file_unfold[OF assms] om_debug_def split: sum.splits)

text \<open>
  An analyzer that writes a report and ends with 0: the report is not read. The same
  analyzer ending with 13: the report is read and returned.
\<close>

theorem exit_status_convention_witness:
  "fst (popen_wait (demo_env 0 (Some ''REPORT''))
          (RETIRE_CMD ''/tmp/retirejs-output-x.w3af'' ''/tmp/retirejs-response-x.w3af.js'')
          (snd (NamedTemporaryFile (demo_env 0 (Some ''REPORT'')) ''retirejs-output-'' ''.w3af''
                  checked_state))) = 0
   \<and> fst (analyze_file (demo_env 0 (Some ''REPORT'')) checked_state
            ''/tmp/retirejs-response-x.w3af.js'') = JArr []
   \<and> reads (snd (analyze_file (demo_env 0 (Some ''REPORT'')) checked_state
            ''/tmp/retirejs-response-x.w3af.js'')) = []
   \<and> fst (popen_wait (demo_env 13 (Some ''REPORT''))
          (RETIRE_CMD ''/tmp/retirejs-output-x.w3af'' ''/tmp/retirejs-response-x.w3af.js'')
          (snd (NamedTemporaryFile (demo_env 13 (Some ''REPORT'')) ''retirejs-output-'' ''.w3af''
                  checked_state))) \<noteq> 0
   \<and> reads (snd (analyze_file (demo_env 13 (Some ''REPORT'')) checked_state
            ''/tmp/retirejs-response-x.w3af.js'')) = [''/tmp/retirejs-output-x.w3af'']
   \<and> fst (analyze_file (demo_env 13 (Some ''REPORT'')) checked_state
            ''/tmp/retirejs-response-x.w3af.js'') = demo_report"
proof -
  let ?jf = "''/tmp/retirejs-output-x.w3af''"
  let ?rf = "''/tmp/retirejs-response-x.w3af.js''"
  let ?E0 = "demo_env 0 (Some ''REPORT'')"
  let ?E13 = "demo_env 13 (Some ''REPORT'')"
  let ?s1 = "\<lambda>E. snd (NamedTemporaryFile E ''retirejs-output-'' ''.w3af'' checked_state)"
  let ?pw = "\<lambda>E. popen_wait E (RETIRE_CMD ?jf ?rf) (?s1 E)"
  have n0: "NamedTemporaryFile ?E0 ''retirejs-output-'' ''.w3af'' checked_state = (?jf, ?s1 ?E0)"
    by (simp add: NamedTemporaryFile_def demo_env_def Let_def)
  have n13: "NamedTemporaryFile ?E13 ''retirejs-output-'' ''.w3af'' checked_state = (?jf, ?s1 ?E13)"
    by (simp add: NamedTemporaryFile_def demo_env_def Let_def)
  have p0: "?pw ?E0 = (0, snd (?pw ?E0))"
    by (simp add: popen_wait_def demo_env_def)
  have p13: "?pw ?E13 = (13, snd (?pw ?E13))"
    by (simp add: popen_wait_def demo_env_def)
  have r0: "fst (?pw ?E0) = 0" by (simp add: popen_wait_def demo_env_def)
  have r13: "fst (?pw ?E13) \<noteq> 0" by (simp add: popen_wait_def demo_env_def)
  have c: "reads checked_state = []" by (simp add: demo_defs)
  have rd: "fst (read_json ?E13 ?jf (snd (?pw ?E13))) = Inr demo_report"
    by (simp add: read_json_def file_read_def popen_wait_def NamedTemporaryFile_def demo_env_def)
  from exit_status_convention[OF n0 p0]
  have a: "analyze_file ?E0 checked_state ?rf = (JArr [], remove_file ?jf (snd (?pw ?E0)))"
    and b: "reads (snd (analyze_file ?E0 checked_state ?rf)) = reads checked_state"
    by blast+
  from a have a': "fst (analyze_file ?E0 checked_state ?rf) = JArr []" by simp
  from b c have b': "reads (snd (analyze_file ?E0 checked_state ?rf)) = []" by simp
  from exit_status_convention[OF n13 p13]
  have d: "reads (snd (analyze_file ?E13 checked_state ?rf)) = reads checked_state @ [?jf]"
    and e: "fst (analyze_file ?E13 checked_state ?rf) =
              (case fst (read_json ?E13 ?jf (snd (?pw ?E13))) of Inr doc \<Rightarrow> doc | Inl e \<Rightarrow> JArr [])"
    by simp_all
  from d c have d': "reads (snd (analyze_file ?E13 checked_state ?rf)) = [?jf]" by simp
  from e rd have e': "fst (analyze_file ?E13 checked_state ?rf) = demo_report" by simp
  from r0 a' b' r13 d' e' show ?thesis by blast
qed

subsection \<open>C4: a report that cannot be parsed\<close>

text \<open>
  Claim C4. When the return code is not zero and the output file is gone or does not
  hold valid JSON, \<open>analyze_file\<close> returns the empty document, having written one debug
  message about the failure and removed the output file; the knowledge base is
  untouched, and handing the empty document on to \<open>json_to_kb\<close> ends normally. No
  exception leaves \<open>analyze_file\<close>: the handler catches whatever reading and decoding
  raise.
\<close>

theorem parse_failure_is_empty:
  assumes "NamedTemporaryFile E ''retirejs-output-'' ''.w3af'' s = (json_file, s1)"
      and "popen_wait E (RETIRE_CMD json_file response_file) s1 = (returncode, s2)"
      and "returncode \<noteq> 0"
      and "files s2 json_file = None \<or>
           (\<exists>d msg. files s2 json_file = Some d \<and> json_loads E d = Inl msg)"
  shows "fst (analyze_file E s response_file) = JArr []
       \<and> (\<exists>msg. out_debug (snd (analyze_file E s response_file)) =
             out_debug s @ [''Failed to parse retirejs output. Exception: '' @
                            [CHR 0x22] @ msg @ [CHR 0x22]])
       \<and> files (snd (analyze_file E s response_file)) json_file = None
       \<and> kb (snd (analyze_file E s response_file)) = kb s
       \<and> json_to_kb E t resp (fst (analyze_file E s response_file)) = Inr t"
proof -
  from assms(4) obtain e where e: "fst (read_json E json_file s2) = Inl e"
    by (auto simp: read_json_def file_read_def)
  from e assms(3) have eq: "analyze_file E s response_file =
     (JArr [], remove_file json_file
                (om_debug (''Failed to parse retirejs output. Exception: '' @
                               [CHR 0x22] @ exc_str e @ [CHR 0x22])
                   (s2\<lparr>reads := reads s2 @ [json_file]\<rparr>)))"
    by (simp add: analyze_file_unfold[OF assms(1,2)])
  from popen_wait_frame[OF assms(2)] NamedTemporaryFile_frame[OF assms(1)]
  have "out_debug s2 = out_debug s" "kb s2 = kb s" by simp_all
  then show ?thesis
    by (simp add: eq om_debug_def json_to_kb_empty)
qed

text \<open>An analyzer that ends with 13 and leaves text that is not JSON.\<close>

theorem parse_failure_is_empty_witness:
  "fst (popen_wait (demo_env 13 (Some ''garbage''))
          (RETIRE_CMD ''/tmp/retirejs-output-x.w3af'' ''/tmp/retirejs-response-x.w3af.js'')
          (snd (NamedTemporaryFile (demo_env 13 (Some ''garbage'')) ''retirejs-output-'' ''.w3af''
                  checked_state))) \<noteq> 0
   \<and> json_loads (demo_env 13 (Some ''garbage'')) ''garbage'' = Inl ''No JSON object could be decoded''
   \<and> fst (analyze_file (demo_env 13 (Some ''garbage'')) checked_state
            ''/tmp/retirejs-response-x.w3af.js'') = JArr []
   \<and> length (out_debug (snd (analyze_file (demo_env 13 (Some ''garbage'')) checked_state
            ''/tmp/retirejs-response-x.w3af.js''))) = 1
   \<and> files (snd (analyze_file (demo_env 13 (Some ''garbage'')) checked_state
            ''/tmp/retirejs-response-x.w3af.js'')) ''/tmp/retirejs-output-x.w3af'' = None"
proof -
  let ?jf = "''/tmp/retirejs-output-x.w3af''"
  let ?rf = "''/tmp/retirejs-response-x.w3af.js''"
  let ?E = "demo_env 13 (Some ''garbage'')"
  let ?s1 = "snd (NamedTemporaryFile ?E ''retirejs-output-'' ''.w3af'' checked_state)"
  let ?pw = "popen_wait ?E (RETIRE_CMD ?jf ?rf) ?s1"
  have n: "NamedTemporaryFile ?E ''retirejs-output-'' ''.w3af'' checked_state = (?jf, ?s1)"
    by (simp add: NamedTemporaryFile_def demo_env_def Let_def)
  have p: "?pw = (13, snd ?pw)"
    by (simp add: popen_wait_def demo_env_def)
  have nz: "(13::int) \<noteq> 0" by simp
  have j: "json_loads ?E ''garbage'' = Inl ''No JSON object could be decoded''"
    by (simp add: demo_env_def)
  have f: "files (snd ?pw) ?jf = Some ''garbage''"
    by (simp add: popen_wait_def NamedTemporaryFile_def demo_env_def)
  from f j have h: "files (snd ?pw) ?jf = None \<or>
           (\<exists>d msg. files (snd ?pw) ?jf = Some d \<and> json_loads ?E d = Inl msg)" by blast
  have c: "out_debug checked_state = []" by (simp add: demo_defs)
  have r: "fst ?pw \<noteq> 0" by (simp add: popen_wait_def demo_env_def)
  from parse_failure_is_empty[OF n p nz h]
  obtain msg where a: "fst (analyze_file ?E checked_state ?rf) = JArr []"
    and b: "out_debug (snd (analyze_file ?E checked_state ?rf)) =
             out_debug checked_state @ [''Failed to parse retirejs output. Exception: '' @
                            [CHR 0x22] @ msg @ [CHR 0x22]]"
    and d: "files (snd (analyze_file ?E checked_state ?rf)) ?jf = None"
    by blast
  from b c have b': "length (out_debug (snd (analyze_file ?E checked_state ?rf))) = 1" by simp
  from r j a b' d show ?thesis by blast
qed

subsection \<open>C8: the temporary files are removed\<close>

text \<open>
  Claim C8. The file that \<open>save_response_to_file\<close> writes (it holds the body) and the
  output file that \<open>analyze_file\<close> creates (empty at first) are both absent from the file
  system when \<open>analyze_response\<close> is over, whether it returned or raised, whatever the
  return code of the analyzer and whatever it left in the output file. Removing a file
  that is absent changes nothing and raises nothing.
\<close>

theorem transient_files_removed:
  assumes "save_response_to_file E s resp = (response_file, s1)"
      and "NamedTemporaryFile E ''retirejs-output-'' ''.w3af'' s1 = (json_file, s2)"
  shows "files s1 response_file = Some (get_body resp)
       \<and> files s2 json_file = Some []
       \<and> files (final (analyze_response E s resp)) response_file = None
       \<and> files (final (analyze_response E s resp)) json_file = None
       \<and> (files t p = None \<longrightarrow> remove_file p t = t)"
proof -
  obtain d s3 where a: "analyze_file E s1 response_file = (d, s3)"
    by (cases "analyze_file E s1 response_file")
  have eq: "analyze_response E s resp = json_to_kb E (remove_file response_file s3) resp d"
    by (simp add: analyze_response_def assms(1) a)
  from json_to_kb_frame[of "remove_file response_file s3" E resp d]
  have f: "files (final (analyze_response E s resp)) = (files s3)(response_file := None)"
    by (simp add: eq frame_def)
  from analyze_file_files[OF assms(2), of response_file] a
  have j: "files s3 json_file = None" by simp
  from save_response_to_file_unfold[OF assms(1)]
  have a1: "files s1 response_file = Some (get_body resp)" by simp
  from NamedTemporaryFile_frame[OF assms(2)]
  have a2: "files s2 json_file = Some []" by simp
  have a3: "files (final (analyze_response E s resp)) response_file = None"
    by (simp add: f)
  have a4: "files (final (analyze_response E s resp)) json_file = None"
    using j by (simp add: f)
  from a1 a2 a3 a4 show ?thesis by (simp add: remove_file_absent)
qed

text \<open>The same run, seen from \<open>analyze_response\<close>.\<close>

theorem transient_files_removed_witness:
  "files (snd (save_response_to_file (demo_env 13 (Some ''garbage'')) checked_state
                 (demo_response ''http://h/a.js'' ''B''))) ''/tmp/retirejs-response-x.w3af.js''
     = Some ''B''
   \<and> files (final (analyze_response (demo_env 13 (Some ''garbage'')) checked_state
                 (demo_response ''http://h/a.js'' ''B''))) ''/tmp/retirejs-response-x.w3af.js''
     = None
   \<and> files (final (analyze_response (demo_env 13 (Some ''garbage'')) checked_state
                 (demo_response ''http://h/a.js'' ''B''))) ''/tmp/retirejs-output-x.w3af''
     = None
   \<and> files checked_state ''/tmp/absent'' = None
   \<and> remove_file ''/tmp/absent'' checked_state = checked_state"
proof -
  let ?E = "demo_env 13 (Some ''garbage'')"
  let ?resp = "demo_response ''http://h/a.js'' ''B''"
  let ?rf = "''/tmp/retirejs-response-x.w3af.js''"
  let ?jf = "''/tmp/retirejs-output-x.w3af''"
  let ?s1 = "snd (save_response_to_file ?E checked_state ?resp)"
  let ?s2 = "snd (NamedTemporaryFile ?E ''retirejs-output-'' ''.w3af'' ?s1)"
  have a: "save_response_to_file ?E checked_state ?resp = (?rf, ?s1)"
    by (simp add: save_response_to_file_def NamedTemporaryFile_def demo_env_def Let_def)
  have b: "NamedTemporaryFile ?E ''retirejs-output-'' ''.w3af'' ?s1 = (?jf, ?s2)"
    by (simp add: NamedTemporaryFile_def demo_env_def Let_def)
  have c: "files checked_state ''/tmp/absent'' = None" by (simp add: demo_defs)
  have d: "get_body ?resp = ''B''" by (simp add: demo_defs)
  from transient_files_removed[OF a b, of checked_state "''/tmp/absent''"] c d
  show ?thesis by simp
qed

subsection \<open>C7: the health check runs once\<close>

text \<open>
  Claim C7. The first call of \<open>retirejs_exit_code\<close> starts the analyzer once, on a check
  file that is empty, returns and stores \<^verbatim>\<open>True\<close> exactly when the return code is zero,
  and leaves neither the check file nor the output file behind, whatever the return code.
  A call made when the check has run returns the stored value and leaves the state as
  it is; so does a second call right after the first. With \<^verbatim>\<open>False\<close> stored, \<open>grep\<close>
  returns at once for every response, and a whole session changes nothing.
\<close>

theorem health_check_memoized:
  "(\<not> retirejs_exit_code_was_run s \<and>
    NamedTemporaryFile E ''retirejs-check-'' ''.w3af'' s = (check_file, s1) \<and>
    NamedTemporaryFile E ''retirejs-output-'' ''.w3af'' s1 = (output_file, s3) \<and>
    popen_wait E (RETIRE_CMD output_file check_file) s3 = (returncode, s4) \<longrightarrow>
      files s3 check_file = Some [] \<and>
      fst (retirejs_exit_code E s) = Some (returncode = 0) \<and>
      cmds (snd (retirejs_exit_code E s)) = cmds s @ [RETIRE_CMD output_file check_file] \<and>
      retirejs_exit_code_was_run (snd (retirejs_exit_code E s)) \<and>
      retirejs_exit_code_result (snd (retirejs_exit_code E s)) = Some (returncode = 0) \<and>
      files (snd (retirejs_exit_code E s)) check_file = None \<and>
      files (snd (retirejs_exit_code E s)) output_file = None)
   \<and> (retirejs_exit_code_was_run s \<longrightarrow>
        retirejs_exit_code E s = (retirejs_exit_code_result s, s))
   \<and> retirejs_exit_code E (snd (retirejs_exit_code E s)) =
        (fst (retirejs_exit_code E s), snd (retirejs_exit_code E s))
   \<and> (retirejs_exit_code_was_run s \<and> retirejs_exit_code_result s = Some False \<longrightarrow>
        grep E s rq r = Inr s \<and> session E s rrs = s)
   \<and> (fst (retirejs_exit_code E s) = Some False \<longrightarrow>
        grep E s rq r = Inr (snd (retirejs_exit_code E s)) \<and>
        session E (final (grep E s rq r)) rrs = final (grep E s rq r))"
proof (intro conjI impI)
  assume a: "\<not> retirejs_exit_code_was_run s \<and>
    NamedTemporaryFile E ''retirejs-check-'' ''.w3af'' s = (check_file, s1) \<and>
    NamedTemporaryFile E ''retirejs-output-'' ''.w3af'' s1 = (output_file, s3) \<and>
    popen_wait E (RETIRE_CMD output_file check_file) s3 = (returncode, s4)"
  then have eq: "retirejs_exit_code E s =
     (Some (returncode = 0),
      remove_file check_file (remove_file output_file
        ((if returncode \<noteq> 0
          then om_error ''Unexpected retire.js exit code. Disabling grep.retirejs plugin.'' s4
          else om_debug ''retire.js returned the expected exit code.'' s4)
         \<lparr>retirejs_exit_code_was_run := True,
          retirejs_exit_code_result := Some (returncode = 0)\<rparr>)))"
    using retirejs_exit_code_first[of s E check_file s1 output_file s3 returncode s4] by blast
  from a NamedTemporaryFile_frame[of E "''retirejs-check-''" "''.w3af''" s check_file s1]
    NamedTemporaryFile_frame[of E "''retirejs-output-''" "''.w3af''" s1 output_file s3]
  have n: "files s3 = (files s)(check_file \<mapsto> [], output_file \<mapsto> [])" "cmds s3 = cmds s"
    by auto
  from a popen_wait_frame[of E "RETIRE_CMD output_file check_file" s3 returncode s4]
  have p: "cmds s4 = cmds s3 @ [RETIRE_CMD output_file check_file]" by blast
  show "files s3 check_file = Some []" by (simp add: n)
  show "fst (retirejs_exit_code E s) = Some (returncode = 0)" by (simp add: eq)
  show "cmds (snd (retirejs_exit_code E s)) = cmds s @ [RETIRE_CMD output_file check_file]"
    by (simp add: eq om_error_def om_debug_def p n)
  show "retirejs_exit_code_was_run (snd (retirejs_exit_code E s))" by (simp add: eq)
  show "retirejs_exit_code_result (snd (retirejs_exit_code E s)) = Some (returncode = 0)"
    by (simp add: eq)
  show "files (snd (retirejs_exit_code E s)) check_file = None" by (simp add: eq)
  show "files (snd (retirejs_exit_code E s)) output_file = None" by (simp add: eq)
next
  assume "retirejs_exit_code_was_run s"
  then show "retirejs_exit_code E s = (retirejs_exit_code_result s, s)"
    by (rule retirejs_exit_code_run)
next
  show "retirejs_exit_code E (snd (retirejs_exit_code E s)) =
        (fst (retirejs_exit_code E s), snd (retirejs_exit_code E s))"
  proof (cases "retirejs_exit_code_was_run s")
    case True
    then show ?thesis by (simp add: retirejs_exit_code_run)
  next
    case False
    have run: "retirejs_exit_code_was_run (snd (retirejs_exit_code E s))"
      by (rule retirejs_exit_code_frame)
    have "fst (retirejs_exit_code E s) = retirejs_exit_code_result (snd (retirejs_exit_code E s))"
      by (simp add: retirejs_exit_code_def Let_def split: prod.splits)
    with retirejs_exit_code_run[OF run, of E] show ?thesis by simp
  qed
next
  assume "retirejs_exit_code_was_run s \<and> retirejs_exit_code_result s = Some False"
  then show "grep E s rq r = Inr s"
    by (simp add: grep_def retirejs_exit_code_run)
next
  assume "retirejs_exit_code_was_run s \<and> retirejs_exit_code_result s = Some False"
  then show "session E s rrs = s" by (simp add: session_disabled)
next
  assume a: "fst (retirejs_exit_code E s) = Some False"
  then show g: "grep E s rq r = Inr (snd (retirejs_exit_code E s))"
    by (cases "retirejs_exit_code E s") (simp add: grep_def)
  have run: "retirejs_exit_code_was_run (snd (retirejs_exit_code E s))"
    by (rule retirejs_exit_code_frame)
  have "fst (retirejs_exit_code E s) = retirejs_exit_code_result (snd (retirejs_exit_code E s))"
    by (simp add: retirejs_exit_code_def Let_def split: prod.splits)
  with a have "retirejs_exit_code_result (snd (retirejs_exit_code E s)) = Some False" by simp
  from session_disabled[OF run this, of E rrs]
  show "session E (final (grep E s rq r)) rrs = final (grep E s rq r)"
    by (simp add: g final_def)
qed

text \<open>
  From the initial state: an analyzer that ends with 0 on the check file, and one that
  ends with 13, after which the plugin stays disabled.
\<close>

theorem health_check_memoized_witness:
  "\<not> retirejs_exit_code_was_run init_state
   \<and> fst (popen_wait (demo_env 0 None)
          (RETIRE_CMD ''/tmp/retirejs-output-x.w3af'' ''/tmp/retirejs-check-x.w3af'')
          (snd (NamedTemporaryFile (demo_env 0 None) ''retirejs-output-'' ''.w3af''
             (snd (NamedTemporaryFile (demo_env 0 None) ''retirejs-check-'' ''.w3af'' init_state)))))
       = 0
   \<and> fst (retirejs_exit_code (demo_env 0 None) init_state) = Some True
   \<and> cmds (snd (retirejs_exit_code (demo_env 0 None) init_state)) =
       [RETIRE_CMD ''/tmp/retirejs-output-x.w3af'' ''/tmp/retirejs-check-x.w3af'']
   \<and> files (snd (retirejs_exit_code (demo_env 0 None) init_state)) ''/tmp/retirejs-check-x.w3af''
       = None
   \<and> files (snd (retirejs_exit_code (demo_env 0 None) init_state)) ''/tmp/retirejs-output-x.w3af''
       = None
   \<and> fst (retirejs_exit_code (demo_env 13 None) init_state) = Some False
   \<and> grep (demo_env 13 None) init_state demo_request (demo_response ''http://h/a.js'' ''B'') =
       Inr (snd (retirejs_exit_code (demo_env 13 None) init_state))
   \<and> session (demo_env 13 None)
        (final (grep (demo_env 13 None) init_state demo_request (demo_response ''http://h/a.js'' ''B'')))
        [(demo_request, demo_response ''http://h/b.js'' ''C'')] =
       final (grep (demo_env 13 None) init_state demo_request (demo_response ''http://h/a.js'' ''B''))"
proof -
  let ?chk = "''/tmp/retirejs-check-x.w3af''"
  let ?out = "''/tmp/retirejs-output-x.w3af''"
  let ?E = "demo_env 0 None"
  let ?F = "demo_env 13 None"
  let ?s1 = "snd (NamedTemporaryFile ?E ''retirejs-check-'' ''.w3af'' init_state)"
  let ?s3 = "snd (NamedTemporaryFile ?E ''retirejs-output-'' ''.w3af'' ?s1)"
  let ?s4 = "snd (popen_wait ?E (RETIRE_CMD ?out ?chk) ?s3)"
  have h0: "\<not> retirejs_exit_code_was_run init_state" by (simp add: init_state_def)
  have h1: "NamedTemporaryFile ?E ''retirejs-check-'' ''.w3af'' init_state = (?chk, ?s1)"
    by (simp add: NamedTemporaryFile_def demo_env_def Let_def)
  have h2: "NamedTemporaryFile ?E ''retirejs-output-'' ''.w3af'' ?s1 = (?out, ?s3)"
    by (simp add: NamedTemporaryFile_def demo_env_def Let_def)
  have h3: "popen_wait ?E (RETIRE_CMD ?out ?chk) ?s3 = (0, ?s4)"
    by (simp add: popen_wait_def demo_env_def)
  have r: "fst (popen_wait ?E (RETIRE_CMD ?out ?chk) ?s3) = 0"
    by (simp add: popen_wait_def demo_env_def)
  have c: "cmds init_state = []" by (simp add: init_state_def)
  from health_check_memoized[where E="?E" and s=init_state and check_file="?chk"
      and ?s1.0="?s1" and output_file="?out" and ?s3.0="?s3" and returncode=0 and ?s4.0="?s4",
      THEN conjunct1] h0 h1 h2 h3
  have a: "fst (retirejs_exit_code ?E init_state) = Some ((0::int) = 0)"
    and b: "cmds (snd (retirejs_exit_code ?E init_state)) = cmds init_state @ [RETIRE_CMD ?out ?chk]"
    and d: "files (snd (retirejs_exit_code ?E init_state)) ?chk = None"
    and e: "files (snd (retirejs_exit_code ?E init_state)) ?out = None"
    by blast+
  from a have a': "fst (retirejs_exit_code ?E init_state) = Some True" by simp
  from b c have b': "cmds (snd (retirejs_exit_code ?E init_state)) = [RETIRE_CMD ?out ?chk]" by simp
  have f: "fst (retirejs_exit_code ?F init_state) = Some False"
    by (simp add: demo_defs run_defs)
  from health_check_memoized[where E="?F" and s=init_state and rq=demo_request
      and r="demo_response ''http://h/a.js'' ''B''"
      and rrs="[(demo_request, demo_response ''http://h/b.js'' ''C'')]",
      THEN conjunct2, THEN conjunct2, THEN conjunct2, THEN conjunct2] f
  have g: "grep ?F init_state demo_request (demo_response ''http://h/a.js'' ''B'') =
       Inr (snd (retirejs_exit_code ?F init_state))"
    and k: "session ?F (final (grep ?F init_state demo_request (demo_response ''http://h/a.js'' ''B'')))
        [(demo_request, demo_response ''http://h/b.js'' ''C'')] =
       final (grep ?F init_state demo_request (demo_response ''http://h/a.js'' ''B''))"
    by blast+
  from h0 r a' b' d e f g k show ?thesis by blast
qed

subsection \<open>C5: the outcome of a run that the watchdog ended\<close>




end
